theory Spec2Isabelle
  imports Main "HOL-Library.Word"
begin

section \<open>Shared types\<close>

text \<open>
  \<open>common.Address\<close> is 20 bytes, \<open>common.Hash\<close> 32 bytes, a payload a byte slice.
  A \<open>validator.Validator\<close> is used by the code under study only through
  \<open>Address()\<close>, so a validator is its address, and a \<open>validator.Set\<close> is the list
  that \<open>List()\<close> returns (\<open>Copy()\<close> is the identity on values).
\<close>

type_synonym address = "160 word"
type_synonym hash = "256 word"
type_synonym bytes = "8 word list"
type_synonym valset = "address list"

text \<open>
  Go's \<open>error\<close> is \<open>error option\<close> (\<open>None\<close> is \<open>nil\<close>). The named errors are
  those of the core and of the backend; any other error of a collaborator is
  \<open>OtherError\<close>.
\<close>

datatype error =
    errNotFromProposer
  | errFutureHeightMessage
  | errOldHeightMessage
  | errOldRoundMessage
  | errFutureRoundMessage
  | errFutureStepMessage
  | errInvalidMessage
  | errInvalidSenderOfCommittedSeal
  | errFailedDecodeProposal
  | errFailedDecodePrevote
  | errFailedDecodePrecommit
  | errFailedDecodeVote
  | errNilPrevoteSent
  | errNilPrecommitSent
  | errMovedToNewRound
  | ErrUnauthorizedAddress
  | ErrStoppedEngine
  | OtherError string

text \<open>
  Modelled from the spec: \<open>Quorum()\<close> and \<open>F()\<close> of \<open>validator.Set\<close> are not among
  the sources. The spec gives the quorum threshold as the smallest integer at least
  \<open>2n/3\<close> and the Byzantine budget as the floor of \<open>(n - 1)/3\<close>, for \<open>n\<close> validators.
\<close>

definition Quorum :: "valset \<Rightarrow> int" where
  "Quorum valSet = (2 * int (length valSet) + 2) div 3"

definition F :: "valset \<Rightarrow> int" where
  "F valSet = (int (length valSet) - 1) div 3"

section \<open>The backend (consensus/tendermint/backend/backend.go)\<close>

record header =
  Number :: int
  Extra :: bytes

record block =
  blockHeader :: header
  blockBody :: bytes

text \<open>The two p2p message codes \<open>Send\<close> is called with.\<close>

datatype msgcode = tendermintMsg | tendermintSyncMsg

text \<open>
  \<open>consensus.Broadcaster\<close> is an interface. \<open>FindPeers\<close> returns a Go map from
  address to peer; the model has the keys of that map in the order in which
  \<open>range\<close> visits them, each key standing for its peer. \<open>Enqueue\<close> appends to
  the fetcher queue.
\<close>

record broadcaster =
  FindPeers :: "address set \<Rightarrow> address list"
  queue :: "(string \<times> block) list"

text \<open>
  The fields of \<open>Backend\<close> that the functions below read or write. An ARC cache
  is modelled by its contents, a map; eviction is not modelled (the capacities
  \<open>inmemoryMessages\<close> and \<open>inmemoryPeers\<close> are not among the sources). The channel
  \<open>commitCh\<close> is \<open>None\<close> when nil, else the blocks sent on it. \<open>sent\<close> is the
  network: every \<open>go p.Send(code, payload)\<close> appends the peer's address, the code
  and the payload. \<open>currentBlock\<close> is the value \<open>sb.currentBlock()\<close> returns.
\<close>

record Backend =
  address :: address
  commitCh :: "block list option"
  proposedBlockHash :: hash
  coreStarted :: bool
  broadcaster :: "broadcaster option"
  recentMessages :: "address \<rightharpoonup> (hash \<rightharpoonup> bool)"
  knownMessages :: "hash \<rightharpoonup> bool"
  currentBlock :: block
  sent :: "(address \<times> msgcode \<times> bytes) list"

text \<open>
  Functions of other packages that the backend calls, as parameters:
  \<open>types.RLPHash\<close>, \<open>types.WriteCommittedSeals\<close> (which fills the header it is
  given or fails), \<open>Block.Hash\<close> and \<open>Backend.Author\<close>.
\<close>

record benv =
  RLPHash :: "bytes \<Rightarrow> hash"
  WriteCommittedSeals :: "header \<Rightarrow> bytes list \<Rightarrow> error + header"
  Hash :: "block \<Rightarrow> hash"
  Author :: "header \<Rightarrow> error + address"

definition fetcherID :: string where
  "fetcherID = ''tendermint''"

text \<open>The map \<open>targets\<close> that \<open>AskSync\<close> and \<open>Gossip\<close> both build.\<close>

definition targets :: "Backend \<Rightarrow> valset \<Rightarrow> address list" where
  "targets sb valSet = filter (\<lambda>val. val \<noteq> address sb) valSet"

subsection \<open>AskSync\<close>

fun askSyncLoop :: "int \<Rightarrow> int \<Rightarrow> address list \<Rightarrow> Backend \<Rightarrow> Backend" where
  "askSyncLoop q count [] sb = sb"
| "askSyncLoop q count (addr # ps) sb =
     (if count = q then sb
      else askSyncLoop q (count + 1) ps
             (sb\<lparr>sent := sent sb @ [(addr, tendermintSyncMsg, [])]\<rparr>))"

definition AskSync :: "Backend \<Rightarrow> valset \<Rightarrow> Backend" where
  "AskSync sb valSet =
     (case broadcaster sb of
        None \<Rightarrow> sb
      | Some br \<Rightarrow>
          if targets sb valSet \<noteq> []
          then askSyncLoop (Quorum valSet) 0 (FindPeers br (set (targets sb valSet))) sb
          else sb)"

subsection \<open>Gossip\<close>

text \<open>
  The test of lines 214 to 221: the peer has a cache in \<open>recentMessages\<close> and that
  cache holds the hash.
\<close>

definition peerHas :: "Backend \<Rightarrow> address \<Rightarrow> hash \<Rightarrow> bool" where
  "peerHas sb addr h =
     (case recentMessages sb addr of None \<Rightarrow> False | Some m \<Rightarrow> m h \<noteq> None)"

definition peerCache :: "Backend \<Rightarrow> address \<Rightarrow> (hash \<rightharpoonup> bool)" where
  "peerCache sb addr =
     (case recentMessages sb addr of None \<Rightarrow> Map.empty | Some m \<Rightarrow> m)"

definition sendTo :: "hash \<Rightarrow> bytes \<Rightarrow> address \<Rightarrow> Backend \<Rightarrow> Backend" where
  "sendTo h payload addr sb =
     sb\<lparr>recentMessages := (recentMessages sb)(addr \<mapsto> (peerCache sb addr)(h \<mapsto> True)),
        sent := sent sb @ [(addr, tendermintMsg, payload)]\<rparr>"

fun gossipLoop :: "hash \<Rightarrow> bytes \<Rightarrow> address list \<Rightarrow> Backend \<Rightarrow> Backend" where
  "gossipLoop h payload [] sb = sb"
| "gossipLoop h payload (addr # ps) sb =
     (if peerHas sb addr h
      then gossipLoop h payload ps sb
      else gossipLoop h payload ps (sendTo h payload addr sb))"

definition Gossip :: "benv \<Rightarrow> Backend \<Rightarrow> valset \<Rightarrow> bytes \<Rightarrow> Backend" where
  "Gossip be sb valSet payload =
     (let h = RLPHash be payload;
          sb1 = sb\<lparr>knownMessages := (knownMessages sb)(h \<mapsto> True)\<rparr>
      in case broadcaster sb1 of
           None \<Rightarrow> sb1
         | Some br \<Rightarrow>
             if targets sb1 valSet \<noteq> []
             then gossipLoop h payload (FindPeers br (set (targets sb1 valSet))) sb1
             else sb1)"

subsection \<open>Commit\<close>

text \<open>
  Modelled from the spec: \<open>isResultChanNil\<close>, \<open>sendResultChan\<close> and
  \<open>Block.WithSeal\<close> are not among the sources. The commit of the spec appends
  the seals to the block header and delivers the block; by the comment at lines
  254 to 259 the delivery to \<open>Seal\<close> is a send on the commit channel, so the two
  test \<open>commitCh\<close> for nil and send the block on it, and \<open>WithSeal\<close> puts the
  sealed header into the block.
\<close>

definition isResultChanNil :: "Backend \<Rightarrow> bool" where
  "isResultChanNil sb = (commitCh sb = None)"

definition sendResultChan :: "Backend \<Rightarrow> block \<Rightarrow> Backend" where
  "sendResultChan sb b = sb\<lparr>commitCh := map_option (\<lambda>ch. ch @ [b]) (commitCh sb)\<rparr>"

definition WithSeal :: "block \<Rightarrow> header \<Rightarrow> block" where
  "WithSeal b h = b\<lparr>blockHeader := h\<rparr>"

definition Enqueue :: "string \<Rightarrow> block \<Rightarrow> broadcaster \<Rightarrow> broadcaster" where
  "Enqueue ident b br = br\<lparr>queue := queue br @ [(ident, b)]\<rparr>"

definition Commit :: "benv \<Rightarrow> Backend \<Rightarrow> block \<Rightarrow> bytes list \<Rightarrow> Backend \<times> error option" where
  "Commit be sb proposal seals =
     (case WriteCommittedSeals be (blockHeader proposal) seals of
        Inl err \<Rightarrow> (sb, Some err)
      | Inr h \<Rightarrow>
          let blk = WithSeal proposal h
          in if proposedBlockHash sb = Hash be blk \<and> \<not> isResultChanNil sb
             then (sendResultChan sb blk, None)
             else (case broadcaster sb of
                     None \<Rightarrow> (sb, None)
                   | Some br \<Rightarrow> (sb\<lparr>broadcaster := Some (Enqueue fetcherID blk br)\<rparr>, None)))"

subsection \<open>LastCommittedProposal\<close>

text \<open>
  The result is \<open>None\<close> for the header-less \<open>new(types.Block)\<close> that is returned
  when \<open>Author\<close> fails, and the zero address is \<open>0\<close>.
\<close>

definition LastCommittedProposal :: "benv \<Rightarrow> Backend \<Rightarrow> block option \<times> address" where
  "LastCommittedProposal be sb =
     (let blk = currentBlock sb
      in if Number (blockHeader blk) > 0
         then (case Author be (blockHeader blk) of
                 Inl err \<Rightarrow> (None, 0)
               | Inr proposer \<Rightarrow> (Some blk, proposer))
         else (Some blk, 0))"

subsection \<open>Validators\<close>

text \<open>
  \<open>retrieveSavedValidators\<close> is not among the sources: its result for a block
  number is the parameter \<open>saved\<close>. On an error the set is empty.
\<close>

definition Validators :: "(64 word \<Rightarrow> error + address list) \<Rightarrow> 64 word \<Rightarrow> valset" where
  "Validators saved number = (case saved number of Inl err \<Rightarrow> [] | Inr validators \<Rightarrow> validators)"

section \<open>The core (consensus/tendermint/core)\<close>

text \<open>
  Modelled from the spec: the message types and the three message codes are not
  among the sources. By section 3 of the spec a consensus message is a proposal,
  a prevote or a precommit, told apart by its code, with an envelope of code,
  sender, signature and committed seal around the encoded proposal or vote, which
  has a height and a round. \<open>Decode\<close> of that payload is a parameter below.
  \<open>Int64\<close> and \<open>Uint64\<close> are those of \<open>big.Int\<close>, and \<open>big.NewInt\<close> of an \<open>int64\<close>
  is \<open>sint\<close>.
\<close>

definition msgProposal :: "64 word" where "msgProposal = 0"
definition msgPrevote :: "64 word" where "msgPrevote = 1"
definition msgPrecommit :: "64 word" where "msgPrecommit = 2"

record Message =
  Code :: "64 word"
  Msg :: bytes
  Address :: address
  Signature :: bytes
  CommittedSeal :: bytes

record Proposal =
  proposalRound :: int
  proposalHeight :: int
  ValidRound :: int
  ProposalBlock :: block

record Vote =
  voteRound :: int
  voteHeight :: int
  ProposedBlockHash :: hash

definition Int64 :: "int \<Rightarrow> 64 word" where
  "Int64 x = word_of_int x"

definition Uint64 :: "int \<Rightarrow> 64 word" where
  "Uint64 x = word_of_int \<bar>x\<bar>"

datatype Step = propose | prevote | precommit | precommitDone

record TimeoutEvent =
  roundWhenCalled :: int
  heightWhenCalled :: int
  step :: "64 word"

datatype event =
    MessageEvent bytes
  | backlogEvent Message address
  | TimeoutEv TimeoutEvent
  | CommitEvent

datatype eventType =
    MessageEventT | backlogEventT | NewUnminedBlockEventT | TimeoutEventT
  | CommitEventT | SyncEventT

datatype subscription = NoSubscription | Subscribed "eventType list" | Unsubscribed

datatype goroutine =
    GoHandleNewUnminedBlockEvent | GoHandleConsensusEvents | GoHandleUnhandledMsgs
  | GoSyncLoop

text \<open>
  A call returns, panics, or hangs (it blocks or loops forever).
\<close>

datatype 'a outcome = Returns 'a | Panics | Hangs

text \<open>
  Modelled from the spec: \<open>roundState\<close> and its methods are not among the
  sources. By section 3 of the spec a round state has a view (the height and
  the round), a step, at most one accepted proposal, the prevotes and the
  precommits, and is created when its round is first observed. So
  \<open>Update(round, height)\<close> makes the state that of the new view, with no proposal
  and no votes, and \<open>SetStep\<close> sets the step.
\<close>

record roundState =
  Round :: int
  Height :: int
  Step :: Step
  roundProposal :: "Proposal option"
  Prevotes :: "Message list"
  Precommits :: "Message list"

definition Update :: "int \<Rightarrow> int \<Rightarrow> roundState \<Rightarrow> roundState" where
  "Update r h s =
     s\<lparr>Round := r, Height := h, roundProposal := None, Prevotes := [], Precommits := []\<rparr>"

definition SetStep :: "Step \<Rightarrow> roundState \<Rightarrow> roundState" where
  "SetStep st s = s\<lparr>Step := st\<rparr>"

text \<open>
  Modelled from the spec: \<open>timeoutPropose\<close> is not among the sources. By section
  4.5 of the spec the propose timeout of round \<open>R\<close> is 3000 ms plus 500 ms for
  each round.
\<close>

definition timeoutPropose :: "64 word \<Rightarrow> int" where
  "timeoutPropose r = 3000 + sint r * 500"

text \<open>
  The fields of the struct \<open>core\<close>. \<open>currentRoundState\<close> is a pointer: \<open>roundStates\<close>
  is the store of the round states by address, and the values of
  \<open>currentHeightOldRoundsStates\<close> are addresses too. The three timeouts are of a
  type \<open>'t\<close> that is not among the sources. \<open>address'\<close> is the field \<open>address\<close>.
  \<open>proposer\<close> is the proposer that \<open>CalcProposer\<close> leaves in the validator set,
  whose list is \<open>valSet\<close>. \<open>cancel\<close> is \<open>None\<close> while the field is nil; else it is
  the cancel function of the context made by the last \<open>Start\<close>, with whether it
  has been called. \<open>futureProposalTimer\<close> is \<open>None\<close> while nil, else whether the
  timer runs. \<open>stopped\<close> counts the values in the channel, which holds up to 3.
  \<open>goroutines\<close> lists the goroutines spawned and still running. \<open>rest\<close> is what
  only code that is not among the sources touches (the backlogs and the pending
  unmined blocks). A missing key of \<open>futureRoundsChange\<close> reads as 0.
\<close>

record ('t, 's) core =
  address' :: address
  backend :: Backend
  cancel :: "bool option"
  messageEventSub :: subscription
  newUnminedBlockEventSub :: subscription
  committedSub :: subscription
  timeoutEventSub :: subscription
  syncEventSub :: subscription
  futureProposalTimer :: "bool option"
  stopped :: nat
  isStarted :: "32 word"
  isStarting :: "32 word"
  isStopping :: "32 word"
  isStopped :: "32 word"
  valSet :: valset
  proposer :: "address option"
  roundStates :: "nat \<Rightarrow> roundState"
  currentRoundState :: nat
  sentProposal :: bool
  sentPrevote :: bool
  sentPrecommit :: bool
  setValidRoundAndValue :: bool
  lockedRound :: int
  validRound :: int
  lockedValue :: "block option"
  validValue :: "block option"
  currentHeightOldRoundsStates :: "64 word \<rightharpoonup> nat"
  proposeTimeout :: 't
  prevoteTimeout :: 't
  precommitTimeout :: 't
  futureRoundsChange :: "64 word \<rightharpoonup> 64 word"
  goroutines :: "goroutine list"
  rest :: 's

text \<open>The round state that \<open>c.currentRoundState\<close> points to.\<close>

definition theRoundState :: "('t, 's) core \<Rightarrow> roundState" where
  "theRoundState c = roundStates c (currentRoundState c)"

definition onRoundState :: "(roundState \<Rightarrow> roundState) \<Rightarrow> ('t, 's) core \<Rightarrow> ('t, 's) core" where
  "onRoundState f c =
     c\<lparr>roundStates := (roundStates c)(currentRoundState c := f (theRoundState c))\<rparr>"

text \<open>
  The methods of the core and of its collaborators that are not among the
  sources, as parameters. A method of the core takes the core and returns it
  updated, with the error where the method returns one; a method of a timeout
  takes the timeout. \<open>CalcProposer\<close> is the proposer policy: by section 4.2 of
  the spec the proposer is a function of the validators, the last proposer and
  the round. \<open>awaitUnminedBlock\<close> is the \<open>select\<close> of \<open>startRound\<close>: it returns no
  block if the context is done first. \<open>retrieveSavedValidators\<close> is the lookup
  behind \<open>Backend.Validators\<close>.
\<close>

record ('t, 's) cenv =
  benv :: benv
  retrieveSavedValidators :: "64 word \<Rightarrow> error + address list"
  CalcProposer :: "valset \<Rightarrow> address \<Rightarrow> 64 word \<Rightarrow> address option"
  FromPayload :: "bytes \<Rightarrow> valset \<Rightarrow> error + (Message \<times> address)"
  Payload :: "Message \<Rightarrow> error + bytes"
  decodeProposal :: "bytes \<Rightarrow> Proposal option"
  decodeVote :: "bytes \<Rightarrow> Vote option"
  handleProposal :: "Message \<Rightarrow> ('t, 's) core \<Rightarrow> ('t, 's) core \<times> error option"
  handlePrevote :: "Message \<Rightarrow> ('t, 's) core \<Rightarrow> ('t, 's) core \<times> error option"
  handlePrecommit :: "Message \<Rightarrow> ('t, 's) core \<Rightarrow> ('t, 's) core \<times> error option"
  storeBacklog :: "Message \<Rightarrow> address \<Rightarrow> ('t, 's) core \<Rightarrow> ('t, 's) core"
  processBacklog :: "('t, 's) core \<Rightarrow> ('t, 's) core"
  getUnminedBlock :: "('t, 's) core \<Rightarrow> block option"
  awaitUnminedBlock :: "('t, 's) core \<Rightarrow> block option outcome"
  sendProposal :: "block \<Rightarrow> ('t, 's) core \<Rightarrow> ('t, 's) core"
  handleTimeoutPropose :: "TimeoutEvent \<Rightarrow> ('t, 's) core \<Rightarrow> ('t, 's) core"
  handleTimeoutPrevote :: "TimeoutEvent \<Rightarrow> ('t, 's) core \<Rightarrow> ('t, 's) core"
  handleTimeoutPrecommit :: "TimeoutEvent \<Rightarrow> ('t, 's) core \<Rightarrow> ('t, 's) core"
  handleCommit :: "('t, 's) core \<Rightarrow> ('t, 's) core"
  backendStart :: "Backend \<Rightarrow> Backend \<times> error option"
  backendClose :: "Backend \<Rightarrow> Backend \<times> error option"
  resetTimeout :: "Step \<Rightarrow> 't \<Rightarrow> 't"
  stopTimer :: "'t \<Rightarrow> 't"
  scheduleTimeout :: "int \<Rightarrow> 64 word \<Rightarrow> 64 word \<Rightarrow> 't \<Rightarrow> 't"

subsection \<open>startRound and setCore\<close>

text \<open>
  The loop of lines 529 to 534 of \<open>setCore\<close>, from \<open>i\<close> on: it deletes the keys
  from 0 to the round. The counter is an \<open>int64\<close>, so for the greatest round the
  loop does not end.
\<close>

partial_function (option) deleteRounds ::
  "64 word \<Rightarrow> 64 word \<Rightarrow> (64 word \<rightharpoonup> 64 word) \<Rightarrow> (64 word \<rightharpoonup> 64 word) option" where
  "deleteRounds i r m = (if i \<le>s r then deleteRounds (i + 1) r (m(i := None)) else Some m)"

declare deleteRounds.simps [code]

definition setCore ::
  "('t, 's) cenv \<Rightarrow> int \<Rightarrow> int \<Rightarrow> address \<Rightarrow> ('t, 's) core \<Rightarrow> ('t, 's) core option" where
  "setCore env r h lastProposer c =
     (let c1 = (if Int64 r = 0
                then c\<lparr>lockedRound := - 1, lockedValue := None,
                       validRound := - 1, validValue := None,
                       valSet := Validators (retrieveSavedValidators env) (Uint64 h),
                       currentHeightOldRoundsStates := Map.empty,
                       futureRoundsChange := Map.empty\<rparr>
                else c);
          c2 = c1\<lparr>proposeTimeout := resetTimeout env propose (proposeTimeout c1),
                  prevoteTimeout := resetTimeout env prevote (prevoteTimeout c1),
                  precommitTimeout := resetTimeout env precommit (precommitTimeout c1)\<rparr>
      in case deleteRounds 0 (Int64 r) (futureRoundsChange c2) of
           None \<Rightarrow> None
         | Some m \<Rightarrow>
             let c3 = c2\<lparr>futureRoundsChange := m\<rparr>;
                 c4 = (if 0 <s Int64 r
                       then c3\<lparr>currentHeightOldRoundsStates :=
                                 (currentHeightOldRoundsStates c3)
                                   (Int64 r - 1 \<mapsto> currentRoundState c3)\<rparr>
                       else c3);
                 c5 = onRoundState (Update r h) c4;
                 c6 = c5\<lparr>proposer := CalcProposer env (valSet c5) lastProposer (Uint64 r)\<rparr>
             in Some (c6\<lparr>sentProposal := False, sentPrevote := False,
                        sentPrecommit := False, setValidRoundAndValue := False\<rparr>))"

definition setStep :: "('t, 's) cenv \<Rightarrow> Step \<Rightarrow> ('t, 's) core \<Rightarrow> ('t, 's) core" where
  "setStep env st c = processBacklog env (onRoundState (SetStep st) c)"

definition isProposer :: "('t, 's) core \<Rightarrow> bool" where
  "isProposer c = (proposer c = Some (address' c))"

text \<open>
  Lines 471 to 500 of \<open>startRound\<close>, on the core that \<open>setCore\<close> has left: the
  step is set, and the node proposes or waits for a proposal.
\<close>

definition proposeOrWait ::
  "('t, 's) cenv \<Rightarrow> int \<Rightarrow> int \<Rightarrow> ('t, 's) core \<Rightarrow> ('t, 's) core outcome" where
  "proposeOrWait env round height c1 =
     (let c2 = setStep env propose c1
      in if isProposer c2
         then (case validValue c2 of
                 Some p \<Rightarrow> Returns (sendProposal env p c2)
               | None \<Rightarrow>
                   (case getUnminedBlock env c2 of
                      Some p \<Rightarrow> Returns (sendProposal env p c2)
                    | None \<Rightarrow>
                        (case awaitUnminedBlock env c2 of
                           Returns None \<Rightarrow> Returns c2
                         | Returns (Some p) \<Rightarrow> Returns (sendProposal env p c2)
                         | Panics \<Rightarrow> Panics
                         | Hangs \<Rightarrow> Hangs)))
         else Returns
                (c2\<lparr>proposeTimeout :=
                      scheduleTimeout env (timeoutPropose (Int64 round)) (Int64 round)
                        (Int64 height) (proposeTimeout c2)\<rparr>))"

text \<open>
  \<open>startRound\<close> panics where it takes the number of the header-less block that
  \<open>LastCommittedProposal\<close> returns when \<open>Author\<close> fails, and it does not return
  where the loop of \<open>setCore\<close> does not end. The metrics and the log are left out.
\<close>

definition startRound :: "('t, 's) cenv \<Rightarrow> int \<Rightarrow> ('t, 's) core \<Rightarrow> ('t, 's) core outcome" where
  "startRound env round c =
     (case LastCommittedProposal (benv env) (backend c) of
        (None, lastCommittedProposalBlockProposer) \<Rightarrow> Panics
      | (Some lastCommittedProposalBlock, lastCommittedProposalBlockProposer) \<Rightarrow>
          let height = Number (blockHeader lastCommittedProposalBlock) + 1
          in (case setCore env round height lastCommittedProposalBlockProposer c of
                None \<Rightarrow> Hangs
              | Some c1 \<Rightarrow> proposeOrWait env round height c1))"

definition stopFutureProposalTimer :: "('t, 's) core \<Rightarrow> ('t, 's) core" where
  "stopFutureProposalTimer c =
     (case futureProposalTimer c of
        None \<Rightarrow> c
      | Some running \<Rightarrow> c\<lparr>futureProposalTimer := Some False\<rparr>)"

subsection \<open>handleCheckedMsg and handleMsg\<close>

definition lookupCount :: "(64 word \<rightharpoonup> 64 word) \<Rightarrow> 64 word \<Rightarrow> 64 word" where
  "lookupCount m k = (case m k of None \<Rightarrow> 0 | Some v \<Rightarrow> v)"

text \<open>Lines 303 to 317: the round of the message, or the decode error.\<close>

definition msgRoundOf :: "('t, 's) cenv \<Rightarrow> Message \<Rightarrow> error + 64 word" where
  "msgRoundOf env msg =
     (if Code msg = msgProposal
      then (case decodeProposal env (Msg msg) of
              None \<Rightarrow> Inl errFailedDecodeProposal
            | Some p \<Rightarrow> Inr (Int64 (proposalRound p)))
      else (case decodeVote env (Msg msg) of
              None \<Rightarrow> Inl errFailedDecodeVote
            | Some v \<Rightarrow> Inr (Int64 (voteRound v))))"

text \<open>
  Lines 319 to 325 on the core \<open>c1\<close> that holds the message in its backlog: the
  counter of the round goes up by one, and \<open>startRound\<close> runs when it exceeds
  \<open>F()\<close>.
\<close>

definition countFutureRound ::
  "('t, 's) cenv \<Rightarrow> 64 word \<Rightarrow> ('t, 's) core \<Rightarrow> ('t, 's) core outcome" where
  "countFutureRound env msgRound c1 =
     (let c2 = c1\<lparr>futureRoundsChange :=
                  (futureRoundsChange c1)
                    (msgRound \<mapsto> lookupCount (futureRoundsChange c1) msgRound + 1)\<rparr>;
          totalFutureRoundMessages = lookupCount (futureRoundsChange c2) msgRound
      in if Int64 (F (valSet c2)) <s totalFutureRoundMessages
         then startRound env (sint msgRound) c2
         else Returns c2)"

definition testBacklog ::
  "('t, 's) cenv \<Rightarrow> Message \<Rightarrow> address \<Rightarrow> ('t, 's) core \<times> error option \<Rightarrow>
   (('t, 's) core \<times> error option) outcome" where
  "testBacklog env msg sender r =
     (case r of (c, err) \<Rightarrow>
        if err = Some errFutureHeightMessage
        then Returns (storeBacklog env msg sender c, err)
        else if err = Some errFutureRoundMessage
        then (let c1 = storeBacklog env msg sender c
              in case msgRoundOf env msg of
                   Inl e \<Rightarrow> Returns (c1, Some e)
                 | Inr msgRound \<Rightarrow>
                     map_outcome (\<lambda>c3. (c3, err)) (countFutureRound env msgRound c1))
        else if err = Some errFutureStepMessage
        then Returns (storeBacklog env msg sender c, err)
        else Returns (c, err))"

definition handleCheckedMsg ::
  "('t, 's) cenv \<Rightarrow> ('t, 's) core \<Rightarrow> Message \<Rightarrow> address \<Rightarrow>
   (('t, 's) core \<times> error option) outcome" where
  "handleCheckedMsg env c msg sender =
     (if Code msg = msgProposal then testBacklog env msg sender (handleProposal env msg c)
      else if Code msg = msgPrevote then testBacklog env msg sender (handlePrevote env msg c)
      else if Code msg = msgPrecommit then testBacklog env msg sender (handlePrecommit env msg c)
      else Returns (c, Some errInvalidMessage))"

definition handleMsg ::
  "('t, 's) cenv \<Rightarrow> ('t, 's) core \<Rightarrow> bytes \<Rightarrow> (('t, 's) core \<times> error option) outcome" where
  "handleMsg env c payload =
     (case FromPayload env payload (valSet c) of
        Inl err \<Rightarrow> Returns (c, Some err)
      | Inr (msg, sender) \<Rightarrow> handleCheckedMsg env c msg sender)"

subsection \<open>The event loop of handleConsensusEvents\<close>

definition gossipPayload :: "('t, 's) cenv \<Rightarrow> bytes \<Rightarrow> ('t, 's) core \<Rightarrow> ('t, 's) core" where
  "gossipPayload env payload c =
     c\<lparr>backend := Gossip (benv env) (backend c) (valSet c) payload\<rparr>"

definition handleEvent ::
  "('t, 's) cenv \<Rightarrow> ('t, 's) core \<Rightarrow> event \<Rightarrow> ('t, 's) core outcome" where
  "handleEvent env c ev =
     (case ev of
        MessageEvent payload \<Rightarrow>
          (case handleMsg env c payload of
             Returns (c1, Some err) \<Rightarrow> Returns c1
           | Returns (c1, None) \<Rightarrow> Returns (gossipPayload env payload c1)
           | Panics \<Rightarrow> Panics
           | Hangs \<Rightarrow> Hangs)
      | backlogEvent msg src \<Rightarrow>
          (case handleCheckedMsg env c msg src of
             Returns (c1, Some err) \<Rightarrow> Returns c1
           | Returns (c1, None) \<Rightarrow>
               (case Payload env msg of
                  Inl err \<Rightarrow> Returns c1
                | Inr p \<Rightarrow> Returns (gossipPayload env p c1))
           | Panics \<Rightarrow> Panics
           | Hangs \<Rightarrow> Hangs)
      | TimeoutEv timeoutE \<Rightarrow>
          if step timeoutE = msgProposal then Returns (handleTimeoutPropose env timeoutE c)
          else if step timeoutE = msgPrevote then Returns (handleTimeoutPrevote env timeoutE c)
          else if step timeoutE = msgPrecommit
          then Returns (handleTimeoutPrecommit env timeoutE c)
          else Returns c
      | CommitEvent \<Rightarrow> Returns (handleCommit env c))"




subsection \<open>Start and Stop\<close>

definition subscribeEvents :: "('t, 's) core \<Rightarrow> ('t, 's) core" where
  "subscribeEvents c =
     c\<lparr>messageEventSub := Subscribed [MessageEventT, backlogEventT],
       newUnminedBlockEventSub := Subscribed [NewUnminedBlockEventT],
       timeoutEventSub := Subscribed [TimeoutEventT],
       committedSub := Subscribed [CommitEventT],
       syncEventSub := Subscribed [SyncEventT]\<rparr>"

definition unsubscribeEvents :: "('t, 's) core \<Rightarrow> ('t, 's) core" where
  "unsubscribeEvents c =
     c\<lparr>messageEventSub := Unsubscribed,
       newUnminedBlockEventSub := Unsubscribed,
       timeoutEventSub := Unsubscribed,
       committedSub := Unsubscribed,
       syncEventSub := Unsubscribed\<rparr>"

text \<open>
  \<open>Start\<close> and \<open>Stop\<close> read and write the four flags with separate atomic
  operations, and other calls may run between any two of them. So a call is a
  sequence of steps on the shared core, and \<open>pc\<close> says where a call stands: at
  the load of the first flag, at the compare-and-swap of the second, at the
  body, at one of the three stores of the deferred function (with the error the
  call is about to return), or at its end.
\<close>

datatype pc =
    AtLoad | AtCAS | AtBody
  | AtDefer1 "error option" | AtDefer2 "error option" | AtDefer3 "error option"
  | Returned "error option" | Panicked | Hung

text \<open>
  Lines 48 to 70 of \<open>Start\<close>. It panics where it takes the number of the
  header-less block.
\<close>

definition startBody ::
  "('t, 's) cenv \<Rightarrow> ('t, 's) core \<Rightarrow> (('t, 's) core \<times> error option) outcome" where
  "startBody env c =
     (let c2 = c\<lparr>cancel := Some False\<rparr>
      in case backendStart env (backend c2) of
           (b, Some err) \<Rightarrow> Returns (c2\<lparr>backend := b\<rparr>, Some err)
         | (b, None) \<Rightarrow>
             let c3 = subscribeEvents (c2\<lparr>backend := b\<rparr>)
             in (case fst (LastCommittedProposal (benv env) (backend c3)) of
                   None \<Rightarrow> Panics
                 | Some lastCommittedProposalBlock \<Rightarrow>
                     let height = Number (blockHeader lastCommittedProposalBlock) + 1;
                         c4 = onRoundState (Update 0 height) c3;
                         c5 = c4\<lparr>goroutines := goroutines c4 @
                                [GoHandleNewUnminedBlockEvent, GoHandleConsensusEvents,
                                 GoHandleUnhandledMsgs]\<rparr>
                     in Returns (c5, None)))"

fun startStep :: "('t, 's) cenv \<Rightarrow> pc \<times> ('t, 's) core \<Rightarrow> pc \<times> ('t, 's) core" where
  "startStep env (AtLoad, c) = (if isStarted c = 1 then (Returned None, c) else (AtCAS, c))"
| "startStep env (AtCAS, c) =
     (if isStarting c = 0 then (AtBody, c\<lparr>isStarting := 1\<rparr>) else (Returned None, c))"
| "startStep env (AtBody, c) =
     (case startBody env c of
        Returns (c1, err) \<Rightarrow> (AtDefer1 err, c1)
      | Panics \<Rightarrow> (Panicked, c)
      | Hangs \<Rightarrow> (Hung, c))"
| "startStep env (AtDefer1 err, c) = (AtDefer2 err, c\<lparr>isStarting := 0\<rparr>)"
| "startStep env (AtDefer2 err, c) = (AtDefer3 err, c\<lparr>isStopped := 0\<rparr>)"
| "startStep env (AtDefer3 err, c) = (Returned err, c\<lparr>isStarted := 1\<rparr>)"
| "startStep env (Returned err, c) = (Returned err, c)"
| "startStep env (Panicked, c) = (Panicked, c)"
| "startStep env (Hung, c) = (Hung, c)"

text \<open>
  \<open><-c.stopped\<close>: the receive takes a value that is in the channel; else each of
  the two event-loop goroutines, once the context is done, leaves its loop and
  sends, so the receive takes the value of one that is still running, which
  then ends; with neither it hangs.
\<close>

definition recvStopped :: "('t, 's) core \<Rightarrow> ('t, 's) core option" where
  "recvStopped c =
     (if 0 < stopped c then Some (c\<lparr>stopped := stopped c - 1\<rparr>)
      else case find (\<lambda>g. g = GoHandleNewUnminedBlockEvent \<or> g = GoHandleConsensusEvents)
                  (goroutines c) of
             None \<Rightarrow> None
           | Some g \<Rightarrow> Some (c\<lparr>goroutines := remove1 g (goroutines c)\<rparr>))"

text \<open>Lines 88 to 107 of \<open>Stop\<close>. It panics where it calls a nil \<open>cancel\<close>.\<close>

definition stopBody ::
  "('t, 's) cenv \<Rightarrow> ('t, 's) core \<Rightarrow> (('t, 's) core \<times> error option) outcome" where
  "stopBody env c =
     (let c2 = c\<lparr>proposeTimeout := stopTimer env (proposeTimeout c),
                 prevoteTimeout := stopTimer env (prevoteTimeout c),
                 precommitTimeout := stopTimer env (precommitTimeout c)\<rparr>
      in case cancel c2 of
           None \<Rightarrow> Panics
         | Some done \<Rightarrow>
             let c3 = c2\<lparr>cancel := Some True\<rparr>;
                 c4 = unsubscribeEvents (stopFutureProposalTimer c3)
             in (case recvStopped c4 of
                   None \<Rightarrow> Hangs
                 | Some c5 \<Rightarrow>
                     (case recvStopped c5 of
                        None \<Rightarrow> Hangs
                      | Some c6 \<Rightarrow>
                          (case backendClose env (backend c6) of
                             (b, err) \<Rightarrow> Returns (c6\<lparr>backend := b\<rparr>, err)))))"

fun stopStep :: "('t, 's) cenv \<Rightarrow> pc \<times> ('t, 's) core \<Rightarrow> pc \<times> ('t, 's) core" where
  "stopStep env (AtLoad, c) = (if isStopped c = 1 then (Returned None, c) else (AtCAS, c))"
| "stopStep env (AtCAS, c) =
     (if isStopping c = 0 then (AtBody, c\<lparr>isStopping := 1\<rparr>) else (Returned None, c))"
| "stopStep env (AtBody, c) =
     (case stopBody env c of
        Returns (c1, err) \<Rightarrow> (AtDefer1 err, c1)
      | Panics \<Rightarrow> (Panicked, c)
      | Hangs \<Rightarrow> (Hung, c))"
| "stopStep env (AtDefer1 err, c) = (AtDefer2 err, c\<lparr>isStopping := 0\<rparr>)"
| "stopStep env (AtDefer2 err, c) = (AtDefer3 err, c\<lparr>isStopped := 1\<rparr>)"
| "stopStep env (AtDefer3 err, c) = (Returned err, c\<lparr>isStarted := 0\<rparr>)"
| "stopStep env (Returned err, c) = (Returned err, c)"
| "stopStep env (Panicked, c) = (Panicked, c)"
| "stopStep env (Hung, c) = (Hung, c)"

text \<open>
  A call that runs alone takes its six steps one after the other; \<open>steps n\<close> are
  the first \<open>n\<close> of them.
\<close>

fun steps :: "nat \<Rightarrow> ('a \<Rightarrow> 'a) \<Rightarrow> 'a \<Rightarrow> 'a" where
  "steps 0 f x = x"
| "steps (Suc n) f x = steps n f (f x)"

definition finish :: "pc \<times> ('t, 's) core \<Rightarrow> (('t, 's) core \<times> error option) outcome" where
  "finish r =
     (case r of
        (Returned err, c) \<Rightarrow> Returns (c, err)
      | (Panicked, c) \<Rightarrow> Panics
      | (other, c) \<Rightarrow> Hangs)"

definition Start ::
  "('t, 's) cenv \<Rightarrow> ('t, 's) core \<Rightarrow> (('t, 's) core \<times> error option) outcome" where
  "Start env c =
     finish (steps (Suc (Suc (Suc (Suc (Suc (Suc 0)))))) (startStep env) (AtLoad, c))"

definition Stop ::
  "('t, 's) cenv \<Rightarrow> ('t, 's) core \<Rightarrow> (('t, 's) core \<times> error option) outcome" where
  "Stop env c =
     finish (steps (Suc (Suc (Suc (Suc (Suc (Suc 0)))))) (stopStep env) (AtLoad, c))"

text \<open>
  The handler that the switch of \<open>handleCheckedMsg\<close> selects for a message, and
  none for the default case.
\<close>

definition handlerFor ::
  "('t, 's) cenv \<Rightarrow> Message \<Rightarrow> (('t, 's) core \<Rightarrow> ('t, 's) core \<times> error option) option" where
  "handlerFor env msg =
     (if Code msg = msgProposal then Some (handleProposal env msg)
      else if Code msg = msgPrevote then Some (handlePrevote env msg)
      else if Code msg = msgPrecommit then Some (handlePrecommit env msg)
      else None)"

text \<open>
  The peers that \<open>FindPeers\<close> returns to \<open>AskSync\<close> and \<open>Gossip\<close>, and none where
  the call is not reached.
\<close>

definition found :: "Backend \<Rightarrow> valset \<Rightarrow> address list" where
  "found sb vs =
     (case broadcaster sb of
        None \<Rightarrow> []
      | Some br \<Rightarrow> if targets sb vs = [] then [] else FindPeers br (set (targets sb vs)))"

section \<open>New\<close>

text \<open>
  The core that \<open>New\<close> returns, for the timeouts that \<open>newTimeout\<close> makes and an
  empty rest. The configuration and the logger are left out. The zero value of
  the round state has no round and no height: both read as 0 here.
\<close>

definition New :: "Backend \<Rightarrow> (Step \<Rightarrow> 't) \<Rightarrow> 's \<Rightarrow> ('t, 's) core" where
  "New sb newTimeout rest0 =
     \<lparr>address' = address sb, backend = sb, cancel = None,
      messageEventSub = NoSubscription, newUnminedBlockEventSub = NoSubscription,
      committedSub = NoSubscription, timeoutEventSub = NoSubscription,
      syncEventSub = NoSubscription, futureProposalTimer = None, stopped = 0,
      isStarted = 0, isStarting = 0, isStopping = 0, isStopped = 0,
      valSet = [], proposer = None,
      roundStates = (\<lambda>a. \<lparr>Round = 0, Height = 0, Step = propose, roundProposal = None,
                             Prevotes = [], Precommits = []\<rparr>),
      currentRoundState = 0,
      sentProposal = False, sentPrevote = False, sentPrecommit = False,
      setValidRoundAndValue = False,
      lockedRound = - 1, validRound = - 1, lockedValue = None, validValue = None,
      currentHeightOldRoundsStates = Map.empty,
      proposeTimeout = newTimeout propose, prevoteTimeout = newTimeout prevote,
      precommitTimeout = newTimeout precommit,
      futureRoundsChange = Map.empty, goroutines = [], rest = rest0\<rparr>"

section \<open>Message.FromPayload\<close>

text \<open>
  Modelled from the spec: \<open>Message.FromPayload\<close> and
  \<open>crypto.CheckValidatorSignature\<close> are not among the sources. By section 4.1 of
  the spec a message is accepted only if it decodes, the sender recovered from
  its signature is a member of the validator set, and that sender is the one the
  message names; and a failure is \<open>errInvalidMessage\<close> or one of the
  \<open>errFailedDecode\<close> errors. \<open>decode\<close> and \<open>recover\<close> are the codec and the
  signature primitive of the host; the validator set is the one the caller
  passes. A failure to decode is reported as the \<open>errFailedDecode\<close> error that
  the codec gives, and every other failure as \<open>errInvalidMessage\<close>.
\<close>

definition failedDecode :: "error \<Rightarrow> error" where
  "failedDecode err =
     (if err = errFailedDecodeProposal \<or> err = errFailedDecodePrevote
         \<or> err = errFailedDecodePrecommit \<or> err = errFailedDecodeVote
      then err else errInvalidMessage)"

definition FromPayload_spec ::
  "(bytes \<Rightarrow> error + Message) \<Rightarrow> (Message \<Rightarrow> error + address) \<Rightarrow>
   bytes \<Rightarrow> valset \<Rightarrow> error + (Message \<times> address)" where
  "FromPayload_spec decode recover payload vs =
     (case decode payload of
        Inl err \<Rightarrow> Inl (failedDecode err)
      | Inr m \<Rightarrow>
          (case recover m of
             Inl err \<Rightarrow> Inl errInvalidMessage
           | Inr sender \<Rightarrow>
               if sender \<in> set vs \<and> sender = Address m then Inr (m, sender)
               else Inl errInvalidMessage))"

text \<open>
  The height a message is for: that of the proposal or of the vote it carries.
\<close>

definition msgHeightOf :: "('t, 's) cenv \<Rightarrow> Message \<Rightarrow> int option" where
  "msgHeightOf env msg =
     (if Code msg = msgProposal
      then map_option proposalHeight (decodeProposal env (Msg msg))
      else map_option voteHeight (decodeVote env (Msg msg)))"

section \<open>A sample node: four validators\<close>

text \<open>
  The boundary case of the spec: validators 1 to 4, so that the quorum is 3 and
  the Byzantine budget is 1. The node is validator 1 and is connected to the
  other three and to a peer 9 that is no validator.
\<close>

definition fourValidators :: valset where
  "fourValidators = [1, 2, 3, 4]"

definition connectedTo :: "address list \<Rightarrow> broadcaster" where
  "connectedTo peers = \<lparr>FindPeers = (\<lambda>t. filter (\<lambda>a. a \<in> t) peers), queue = []\<rparr>"

definition sampleBlock :: block where
  "sampleBlock = \<lparr>blockHeader = \<lparr>Number = 6, Extra = []\<rparr>, blockBody = []\<rparr>"

definition sampleBenv :: benv where
  "sampleBenv =
     \<lparr>RLPHash = (\<lambda>p. of_nat (length p)),
      WriteCommittedSeals =
        (\<lambda>h seals. if seals = [] then Inl (OtherError ''no committed seals'')
                    else Inr (h\<lparr>Extra := Extra h @ concat seals\<rparr>)),
      Hash = (\<lambda>b. of_int (Number (blockHeader b))),
      Author = (\<lambda>h. Inr 2)\<rparr>"

definition sampleBackend :: Backend where
  "sampleBackend =
     \<lparr>address = 1, commitCh = None, proposedBlockHash = 0, coreStarted = False,
      broadcaster = Some (connectedTo [4, 2, 9, 3]),
      recentMessages = Map.empty, knownMessages = Map.empty,
      currentBlock = sampleBlock, sent = []\<rparr>"

text \<open>
  A sample timeout is the duration it is scheduled for, if any; the rest of the
  sample core is its backlog. A sample payload is the four bytes code, sender,
  round and height; the sample handlers classify a message against the current
  view and step as the table of section 4.6 of the spec does, and change
  nothing. The sample proposer policy is the round robin of section 4.2 of the
  spec, and a block 7 is pending for the node to propose.
\<close>

type_synonym sampleTimeout = "int option"
type_synonym sampleRest = "(Message \<times> address) list"
type_synonym sampleCore = "(sampleTimeout, sampleRest) core"

definition sampleDecode :: "bytes \<Rightarrow> error + Message" where
  "sampleDecode payload =
     (case payload of
        [code, sender, r, h] \<Rightarrow>
          Inr \<lparr>Code = of_nat (unat code), Msg = [r, h], Address = of_nat (unat sender),
               Signature = [sender], CommittedSeal = []\<rparr>
      | [code, sender] \<Rightarrow> Inl errFailedDecodePrevote
      | _ \<Rightarrow> Inl (OtherError ''rlp''))"

definition sampleRecover :: "Message \<Rightarrow> error + address" where
  "sampleRecover m =
     (case Signature m of [s] \<Rightarrow> Inr (of_nat (unat s)) | _ \<Rightarrow> Inl (OtherError ''signature''))"

definition samplePayload :: "Message \<Rightarrow> error + bytes" where
  "samplePayload m =
     Inr ([of_nat (unat (Code m)), of_nat (unat (Address m))] @ Msg m)"

definition sampleDecodeVote :: "bytes \<Rightarrow> Vote option" where
  "sampleDecodeVote b =
     (case b of
        [r, h] \<Rightarrow> Some \<lparr>voteRound = uint r, voteHeight = uint h, ProposedBlockHash = 0\<rparr>
      | _ \<Rightarrow> None)"

definition sampleDecodeProposal :: "bytes \<Rightarrow> Proposal option" where
  "sampleDecodeProposal b =
     (case b of
        [r, h] \<Rightarrow> Some \<lparr>proposalRound = uint r, proposalHeight = uint h, ValidRound = - 1,
                         ProposalBlock = sampleBlock\<rparr>
      | _ \<Rightarrow> None)"

definition classify :: "bool \<Rightarrow> int \<Rightarrow> int \<Rightarrow> sampleCore \<Rightarrow> error option" where
  "classify vote r h c =
     (if Height (theRoundState c) < h then Some errFutureHeightMessage
      else if h < Height (theRoundState c) then Some errOldHeightMessage
      else if Round (theRoundState c) < r then Some errFutureRoundMessage
      else if r < Round (theRoundState c) then Some errOldRoundMessage
      else if vote \<and> Step (theRoundState c) = propose then Some errFutureStepMessage
      else None)"

definition sampleHandleVote :: "Message \<Rightarrow> sampleCore \<Rightarrow> sampleCore \<times> error option" where
  "sampleHandleVote m c =
     (case sampleDecodeVote (Msg m) of
        None \<Rightarrow> (c, Some errFailedDecodeVote)
      | Some v \<Rightarrow> (c, classify True (voteRound v) (voteHeight v) c))"

definition sampleHandleProposal :: "Message \<Rightarrow> sampleCore \<Rightarrow> sampleCore \<times> error option" where
  "sampleHandleProposal m c =
     (case sampleDecodeProposal (Msg m) of
        None \<Rightarrow> (c, Some errFailedDecodeProposal)
      | Some p \<Rightarrow> (c, classify False (proposalRound p) (proposalHeight p) c))"

definition sampleStoreBacklog :: "Message \<Rightarrow> address \<Rightarrow> sampleCore \<Rightarrow> sampleCore" where
  "sampleStoreBacklog m src c = c\<lparr>rest := rest c @ [(m, src)]\<rparr>"

definition roundRobin :: "valset \<Rightarrow> address \<Rightarrow> 64 word \<Rightarrow> address option" where
  "roundRobin vs lastProposer r =
     (if vs = [] then None
      else Some (vs ! ((length (takeWhile (\<lambda>v. v \<noteq> lastProposer) vs) + 1 + unat r)
                       mod length vs)))"

definition pendingBlock :: block where
  "pendingBlock = \<lparr>blockHeader = \<lparr>Number = 7, Extra = []\<rparr>, blockBody = []\<rparr>"

text \<open>The validators saved so far: those of the blocks up to the current height 7.\<close>

definition sampleSaved :: "64 word \<Rightarrow> error + address list" where
  "sampleSaved number =
     (if number \<le> 7 then Inr fourValidators else Inl (OtherError ''unknown block''))"

definition sampleEnv :: "(sampleTimeout, sampleRest) cenv" where
  "sampleEnv =
     \<lparr>benv = sampleBenv,
      retrieveSavedValidators = sampleSaved,
      CalcProposer = roundRobin,
      FromPayload = FromPayload_spec sampleDecode sampleRecover,
      Payload = samplePayload,
      decodeProposal = sampleDecodeProposal,
      decodeVote = sampleDecodeVote,
      handleProposal = sampleHandleProposal,
      handlePrevote = sampleHandleVote,
      handlePrecommit = sampleHandleVote,
      storeBacklog = sampleStoreBacklog,
      processBacklog = (\<lambda>c. c),
      getUnminedBlock = (\<lambda>c. Some pendingBlock),
      awaitUnminedBlock = (\<lambda>c. Returns None),
      sendProposal = (\<lambda>p c. c\<lparr>sentProposal := True\<rparr>),
      handleTimeoutPropose = (\<lambda>t c. c),
      handleTimeoutPrevote = (\<lambda>t c. c),
      handleTimeoutPrecommit = (\<lambda>t c. c),
      handleCommit = (\<lambda>c. c),
      backendStart = (\<lambda>b. (b\<lparr>coreStarted := True\<rparr>, None)),
      backendClose = (\<lambda>b. (b\<lparr>coreStarted := False\<rparr>, None)),
      resetTimeout = (\<lambda>st t. None),
      stopTimer = (\<lambda>t. None),
      scheduleTimeout = (\<lambda>d r h t. Some d)\<rparr>"

text \<open>
  The round state of the view (height 7, round 0) at the step prevote, and the
  sample core: the new core of the sample backend with that round state and
  the four validators, of which validator 3 proposes.
\<close>

definition sampleRoundState :: roundState where
  "sampleRoundState =
     \<lparr>Round = 0, Height = 7, Step = prevote, roundProposal = None, Prevotes = [], Precommits = []\<rparr>"

definition sampleCore :: sampleCore where
  "sampleCore =
     (New sampleBackend (\<lambda>st. None) [])
       \<lparr>valSet := fourValidators, proposer := Some 3,
        roundStates := (\<lambda>a. sampleRoundState)\<rparr>"

text \<open>
  A prevote of validator 3 for round 2 of height 7, as a payload and decoded,
  and a prevote of validator 3 for round 0 of height 9.
\<close>

definition futureRoundPayload :: bytes where
  "futureRoundPayload = [1, 3, 2, 7]"

definition futureRoundVote :: Message where
  "futureRoundVote =
     \<lparr>Code = 1, Msg = [2, 7], Address = 3, Signature = [3], CommittedSeal = []\<rparr>"

definition futureHeightPayload :: bytes where
  "futureHeightPayload = [1, 3, 0, 9]"

definition futureHeightVote :: Message where
  "futureHeightVote =
     \<lparr>Code = 1, Msg = [0, 9], Address = 3, Signature = [3], CommittedSeal = []\<rparr>"

text \<open>
  A prevote of validator 3 for the current view, a payload with an unknown code,
  a payload of peer 9, which is no validator, a payload that does not decode,
  and a vote whose two bytes are missing.
\<close>

definition currentPayload :: bytes where
  "currentPayload = [1, 3, 0, 7]"

definition currentVote :: Message where
  "currentVote =
     \<lparr>Code = 1, Msg = [0, 7], Address = 3, Signature = [3], CommittedSeal = []\<rparr>"

definition unknownCodePayload :: bytes where
  "unknownCodePayload = [5, 3, 0, 7]"

definition unknownCodeMsg :: Message where
  "unknownCodeMsg =
     \<lparr>Code = 5, Msg = [0, 7], Address = 3, Signature = [3], CommittedSeal = []\<rparr>"

definition strangerPayload :: bytes where
  "strangerPayload = [1, 9, 0, 7]"

definition brokenPayload :: bytes where
  "brokenPayload = [1, 3]"

definition emptyVote :: Message where
  "emptyVote = \<lparr>Code = 1, Msg = [], Address = 3, Signature = [3], CommittedSeal = []\<rparr>"

text \<open>
  The sample core at the step propose; the sample core after it has handled
  \<open>futureRoundVote\<close> once; the sample core two heights later, with
  \<open>futureHeightVote\<close> in its backlog.
\<close>

definition proposingCore :: sampleCore where
  "proposingCore = sampleCore\<lparr>roundStates := (\<lambda>a. sampleRoundState\<lparr>Step := propose\<rparr>)\<rparr>"

definition afterFirstReceipt :: sampleCore where
  "afterFirstReceipt =
     (sampleStoreBacklog futureRoundVote 3 sampleCore)\<lparr>futureRoundsChange := [2 \<mapsto> 1]\<rparr>"

definition atHeight9 :: sampleCore where
  "atHeight9 =
     (sampleStoreBacklog futureHeightVote 3 sampleCore)
       \<lparr>roundStates := (\<lambda>a. sampleRoundState\<lparr>Height := 9\<rparr>)\<rparr>"

text \<open>
  A handler that takes every message for a future-round message without
  decoding it.
\<close>

definition hastyEnv :: "(sampleTimeout, sampleRest) cenv" where
  "hastyEnv = sampleEnv\<lparr>handlePrevote := (\<lambda>m c. (c, Some errFutureRoundMessage))\<rparr>"

text \<open>
  The sample backend while \<open>Seal\<close> waits for the block the node proposed, and the
  sample backend with no broadcaster set.
\<close>

definition sealingBackend :: Backend where
  "sealingBackend = sampleBackend\<lparr>commitCh := Some [], proposedBlockHash := 6\<rparr>"

definition loneBackend :: Backend where
  "loneBackend = sampleBackend\<lparr>broadcaster := None\<rparr>"

text \<open>The header of the sample block with the one-byte seal written into it.\<close>

definition sealedHeader :: header where
  "sealedHeader = \<lparr>Number = 6, Extra = [1]\<rparr>"

text \<open>
  A core that was stopped at round 3 of height 5, locked on a block, with a
  prevote in its round state, one old round and one counted future round.
\<close>

definition staleRoundState :: roundState where
  "staleRoundState =
     \<lparr>Round = 3, Height = 5, Step = precommit, roundProposal = None, Prevotes = [currentVote],
      Precommits = []\<rparr>"

definition staleCore :: sampleCore where
  "staleCore =
     sampleCore
       \<lparr>cancel := Some True, isStopped := 1,
        roundStates := (\<lambda>a. staleRoundState),
        lockedRound := 3, validRound := 3,
        lockedValue := Some sampleBlock, validValue := Some sampleBlock,
        currentHeightOldRoundsStates := [2 \<mapsto> 0],
        futureRoundsChange := [4 \<mapsto> 1]\<rparr>"

text \<open>
  The sample core after it has handled \<open>futureRoundVote\<close> a second time:
  \<open>startRound(2)\<close> has made it the proposer of round 2 of height 7, and it has
  proposed the pending block.
\<close>

definition afterSkip :: sampleCore where
  "afterSkip =
     afterFirstReceipt
       \<lparr>rest := [(futureRoundVote, 3), (futureRoundVote, 3)],
        futureRoundsChange := Map.empty,
        currentHeightOldRoundsStates := [1 \<mapsto> 0],
        roundStates := (\<lambda>a. sampleRoundState)
          (0 := \<lparr>Round = 2, Height = 7, Step = propose, roundProposal = None, Prevotes = [],
                  Precommits = []\<rparr>),
        proposer := Some 1, sentProposal := True\<rparr>"

text \<open>
  The sample core while a first \<open>Start\<close> stands between the first and the second
  store of its deferred function, and after a second \<open>Start\<close> has then run; the
  sample core started and, likewise, while a first \<open>Stop\<close> stands between the
  first and the second store of its deferred function.
\<close>

definition halfStarted :: sampleCore where
  "halfStarted =
     sampleCore
       \<lparr>backend := sampleBackend\<lparr>coreStarted := True\<rparr>, cancel := Some False,
        messageEventSub := Subscribed [MessageEventT, backlogEventT],
        newUnminedBlockEventSub := Subscribed [NewUnminedBlockEventT],
        committedSub := Subscribed [CommitEventT],
        timeoutEventSub := Subscribed [TimeoutEventT],
        syncEventSub := Subscribed [SyncEventT],
        roundStates := (\<lambda>a. sampleRoundState)
          (0 := \<lparr>Round = 0, Height = 7, Step = prevote, roundProposal = None, Prevotes = [],
                  Precommits = []\<rparr>),
        goroutines :=
          [GoHandleNewUnminedBlockEvent, GoHandleConsensusEvents, GoHandleUnhandledMsgs]\<rparr>"

definition startedTwice :: sampleCore where
  "startedTwice =
     halfStarted
       \<lparr>isStarted := 1,
        goroutines :=
          [GoHandleNewUnminedBlockEvent, GoHandleConsensusEvents, GoHandleUnhandledMsgs,
           GoHandleNewUnminedBlockEvent, GoHandleConsensusEvents, GoHandleUnhandledMsgs]\<rparr>"

definition startedCore :: sampleCore where
  "startedCore = halfStarted\<lparr>isStarted := 1\<rparr>"

definition halfStopped :: sampleCore where
  "halfStopped =
     startedCore
       \<lparr>backend := sampleBackend\<lparr>coreStarted := False\<rparr>, cancel := Some True,
        messageEventSub := Unsubscribed, newUnminedBlockEventSub := Unsubscribed,
        committedSub := Unsubscribed, timeoutEventSub := Unsubscribed,
        syncEventSub := Unsubscribed,
        goroutines := [GoHandleUnhandledMsgs]\<rparr>"

text \<open>The started core after a \<open>Stop\<close> that has run alone.\<close>

definition stoppedCore :: sampleCore where
  "stoppedCore = halfStopped\<lparr>isStopped := 1, isStarted := 0\<rparr>"

text \<open>The stale core started, and then after the \<open>startRound(0)\<close> of its driver.\<close>

definition restarted :: sampleCore where
  "restarted =
     staleCore
       \<lparr>backend := sampleBackend\<lparr>coreStarted := True\<rparr>, cancel := Some False,
        messageEventSub := Subscribed [MessageEventT, backlogEventT],
        newUnminedBlockEventSub := Subscribed [NewUnminedBlockEventT],
        committedSub := Subscribed [CommitEventT],
        timeoutEventSub := Subscribed [TimeoutEventT],
        syncEventSub := Subscribed [SyncEventT],
        isStarted := 1, isStopped := 0,
        roundStates := (\<lambda>a. staleRoundState)
          (0 := \<lparr>Round = 0, Height = 7, Step = precommit, roundProposal = None, Prevotes = [],
                  Precommits = []\<rparr>),
        goroutines :=
          [GoHandleNewUnminedBlockEvent, GoHandleConsensusEvents, GoHandleUnhandledMsgs]\<rparr>"

definition atRoundZero :: sampleCore where
  "atRoundZero =
     restarted
       \<lparr>lockedRound := - 1, lockedValue := None, validRound := - 1, validValue := None,
        currentHeightOldRoundsStates := Map.empty, futureRoundsChange := Map.empty,
        roundStates := (\<lambda>a. staleRoundState)
          (0 := \<lparr>Round = 0, Height = 7, Step = propose, roundProposal = None, Prevotes = [],
                  Precommits = []\<rparr>),
        proposeTimeout := Some 3000\<rparr>"

section \<open>The loops of the backend\<close>

text \<open>
  \<open>askSyncLoop\<close> asks the first \<open>q - count\<close> peers of the list; \<open>gossipLoop\<close> sends
  to the peers that do not have the hash yet, and every peer of the list has it
  afterwards.
\<close>

lemma Quorum_nonneg: "0 \<le> Quorum vs"
  by (simp add: Quorum_def)

lemma askSyncLoop_eq:
  "count \<le> q \<Longrightarrow>
   askSyncLoop q count ps sb =
     sb\<lparr>sent := sent sb @ map (\<lambda>a. (a, tendermintSyncMsg, [])) (take (nat (q - count)) ps)\<rparr>"
proof (induction ps arbitrary: count sb)
  case Nil
  then show ?case by simp
next
  case (Cons a ps)
  show ?case
  proof (cases "count = q")
    case True
    then show ?thesis by simp
  next
    case False
    with Cons.prems have lt: "count + 1 \<le> q" by simp
    have "nat (q - count) = Suc (nat (q - (count + 1)))"
      using lt by simp
    then have tk: "take (nat (q - count)) (a # ps) = a # take (nat (q - (count + 1))) ps"
      by simp
    show ?thesis
      using False Cons.IH [OF lt] by (simp add: tk)
  qed
qed

lemma sendTo_fields [simp]:
  "address (sendTo h p a sb) = address sb"
  "broadcaster (sendTo h p a sb) = broadcaster sb"
  "knownMessages (sendTo h p a sb) = knownMessages sb"
  "commitCh (sendTo h p a sb) = commitCh sb"
  "sent (sendTo h p a sb) = sent sb @ [(a, tendermintMsg, p)]"
  by (simp_all add: sendTo_def)

lemma peerHas_sendTo: "peerHas (sendTo h p a sb) x h = (x = a \<or> peerHas sb x h)"
  by (simp add: peerHas_def sendTo_def)

lemma gossipLoop_fields [simp]:
  "address (gossipLoop h p ps sb) = address sb"
  "broadcaster (gossipLoop h p ps sb) = broadcaster sb"
  "knownMessages (gossipLoop h p ps sb) = knownMessages sb"
  "commitCh (gossipLoop h p ps sb) = commitCh sb"
  by (induction ps arbitrary: sb; simp)+

lemma peerHas_gossipLoop_mono:
  "peerHas sb x h \<Longrightarrow> peerHas (gossipLoop h p ps sb) x h"
  by (induction ps arbitrary: sb) (simp_all add: peerHas_sendTo)

lemma gossipLoop_sent:
  "\<exists>new. sent (gossipLoop h p ps sb) = sent sb @ map (\<lambda>a. (a, tendermintMsg, p)) new
         \<and> distinct new
         \<and> set new = {a \<in> set ps. \<not> peerHas sb a h}
         \<and> (\<forall>a \<in> set new. peerHas (gossipLoop h p ps sb) a h)"
proof (induction ps arbitrary: sb)
  case Nil
  then show ?case by simp
next
  case (Cons a ps)
  show ?case
  proof (cases "peerHas sb a h")
    case True
    from Cons.IH [of sb] obtain new where
      n: "sent (gossipLoop h p ps sb) = sent sb @ map (\<lambda>a. (a, tendermintMsg, p)) new"
         "distinct new" "set new = {a \<in> set ps. \<not> peerHas sb a h}"
         "\<forall>a \<in> set new. peerHas (gossipLoop h p ps sb) a h"
      by blast
    have "set new = {x \<in> set (a # ps). \<not> peerHas sb x h}"
      using True n(3) by auto
    with n True show ?thesis by auto
  next
    case False
    let ?sb = "sendTo h p a sb"
    from Cons.IH [of ?sb] obtain new where
      n: "sent (gossipLoop h p ps ?sb) = sent ?sb @ map (\<lambda>a. (a, tendermintMsg, p)) new"
         "distinct new" "set new = {x \<in> set ps. \<not> peerHas ?sb x h}"
         "\<forall>x \<in> set new. peerHas (gossipLoop h p ps ?sb) x h"
      by blast
    have a: "a \<notin> set new"
      using n(3) by (simp add: peerHas_sendTo)
    have s: "set (a # new) = {x \<in> set (a # ps). \<not> peerHas sb x h}"
      using False n(3) by (auto simp: peerHas_sendTo)
    have ha: "peerHas (gossipLoop h p ps ?sb) a h"
      by (rule peerHas_gossipLoop_mono) (simp add: peerHas_sendTo)
    have "sent (gossipLoop h p (a # ps) sb)
            = sent sb @ map (\<lambda>a. (a, tendermintMsg, p)) (a # new)"
      using False n(1) by simp
    moreover have "distinct (a # new)" using a n(2) by simp
    moreover have "\<forall>x \<in> set (a # new). peerHas (gossipLoop h p (a # ps) sb) x h"
      using False ha n(4) by simp
    ultimately show ?thesis using s by blast
  qed
qed

lemma gossipLoop_all_have:
  "x \<in> set ps \<Longrightarrow> peerHas (gossipLoop h p ps sb) x h"
proof (induction ps arbitrary: sb)
  case Nil
  then show ?case by simp
next
  case (Cons a ps)
  show ?case
  proof (cases "x = a")
    case True
    then show ?thesis
      by (auto intro: peerHas_gossipLoop_mono simp: peerHas_sendTo)
  next
    case False
    with Cons show ?thesis by simp
  qed
qed

lemma gossipLoop_noop:
  "\<forall>x \<in> set ps. peerHas sb x h \<Longrightarrow> gossipLoop h p ps sb = sb"
  by (induction ps) simp_all

lemma Gossip_eq:
  "Gossip be sb vs p =
     gossipLoop (RLPHash be p) p (found sb vs)
       (sb\<lparr>knownMessages := (knownMessages sb)(RLPHash be p \<mapsto> True)\<rparr>)"
  by (simp add: Gossip_def found_def targets_def Let_def split: option.splits)

lemma peerHas_known [simp]: "peerHas (sb\<lparr>knownMessages := k\<rparr>) a h = peerHas sb a h"
  by (simp add: peerHas_def)

lemma targets_gossipLoop [simp]:
  "targets (gossipLoop h p ps (sb\<lparr>knownMessages := k\<rparr>)) vs' = targets sb vs'"
  by (simp add: targets_def)

lemma found_Gossip [simp]: "found (Gossip be sb vs p) vs' = found sb vs'"
  by (simp add: Gossip_eq found_def split: option.splits)

lemma Gossip_twice: "Gossip be (Gossip be sb vs p) vs p = Gossip be sb vs p"
proof -
  let ?h = "RLPHash be p"
  let ?g = "Gossip be sb vs p"
  have k: "knownMessages ?g = (knownMessages sb)(?h \<mapsto> True)"
    by (simp add: Gossip_eq)
  have "?g\<lparr>knownMessages := (knownMessages ?g)(?h \<mapsto> True)\<rparr> = ?g"
    by (simp add: k)
  moreover have "\<forall>x \<in> set (found sb vs). peerHas ?g x ?h"
    by (simp add: Gossip_eq gossipLoop_all_have)
  ultimately show ?thesis
    using Gossip_eq [of be ?g vs p] by (simp add: gossipLoop_noop)
qed

section \<open>The branches of handleCheckedMsg\<close>

lemma handleCheckedMsg_handler:
  "handlerFor env msg = Some hdl \<Longrightarrow>
   handleCheckedMsg env c msg sender = testBacklog env msg sender (hdl c)"
  by (auto simp: handlerFor_def handleCheckedMsg_def split: if_splits)


lemma testBacklog_future_round:
  "msgRoundOf env msg = Inr r \<Longrightarrow>
   testBacklog env msg sender (c', Some errFutureRoundMessage) =
     map_outcome (\<lambda>c3. (c3, Some errFutureRoundMessage))
       (countFutureRound env r (storeBacklog env msg sender c'))"
  by (simp add: testBacklog_def)

lemma testBacklog_undecoded:
  "msgRoundOf env msg = Inl e \<Longrightarrow>
   testBacklog env msg sender (c', Some errFutureRoundMessage) =
     Returns (storeBacklog env msg sender c', Some e)"
  by (simp add: testBacklog_def)

lemma testBacklog_park:
  "e = errFutureHeightMessage \<or> e = errFutureStepMessage \<Longrightarrow>
   testBacklog env msg sender (c', Some e) = Returns (storeBacklog env msg sender c', Some e)"
  by (auto simp: testBacklog_def)

lemma testBacklog_other:
  "err \<noteq> Some errFutureHeightMessage \<Longrightarrow> err \<noteq> Some errFutureRoundMessage \<Longrightarrow>
   err \<noteq> Some errFutureStepMessage \<Longrightarrow>
   testBacklog env msg sender (c', err) = Returns (c', err)"
  by (simp add: testBacklog_def)

lemma handleCheckedMsg_future_round:
  "handlerFor env msg = Some hdl \<Longrightarrow> hdl c = (c', Some errFutureRoundMessage) \<Longrightarrow>
   msgRoundOf env msg = Inr r \<Longrightarrow>
   handleCheckedMsg env c msg sender =
     map_outcome (\<lambda>c3. (c3, Some errFutureRoundMessage))
       (countFutureRound env r (storeBacklog env msg sender c'))"
  by (simp add: handleCheckedMsg_handler testBacklog_future_round)

lemma handleCheckedMsg_undecoded:
  "handlerFor env msg = Some hdl \<Longrightarrow> hdl c = (c', Some errFutureRoundMessage) \<Longrightarrow>
   msgRoundOf env msg = Inl e \<Longrightarrow>
   handleCheckedMsg env c msg sender = Returns (storeBacklog env msg sender c', Some e)"
  by (simp add: handleCheckedMsg_handler testBacklog_undecoded)

lemma handleCheckedMsg_park:
  "handlerFor env msg = Some hdl \<Longrightarrow> hdl c = (c', Some e) \<Longrightarrow>
   e = errFutureHeightMessage \<or> e = errFutureStepMessage \<Longrightarrow>
   handleCheckedMsg env c msg sender = Returns (storeBacklog env msg sender c', Some e)"
  by (simp add: handleCheckedMsg_handler testBacklog_park)

lemma handleCheckedMsg_other:
  "handlerFor env msg = Some hdl \<Longrightarrow> hdl c = (c', err) \<Longrightarrow>
   err \<noteq> Some errFutureHeightMessage \<Longrightarrow> err \<noteq> Some errFutureRoundMessage \<Longrightarrow>
   err \<noteq> Some errFutureStepMessage \<Longrightarrow>
   handleCheckedMsg env c msg sender = Returns (c', err)"
  by (simp add: handleCheckedMsg_handler testBacklog_other)


text \<open>The event loop drops the error of a handled message and keeps the core.\<close>

lemma dropped_error:
  "(case map_outcome (\<lambda>c3. (c3, Some e)) r of
      Returns (c1, Some err) \<Rightarrow> Returns c1
    | Returns (c1, None) \<Rightarrow> g c1
    | Panics \<Rightarrow> Panics
    | Hangs \<Rightarrow> Hangs) = r"
  by (cases r) simp_all

text \<open>A round that fits in an \<open>int64\<close> is the round \<open>startRound\<close> is called with.\<close>

lemma sint_Int64: "- (2 ^ 63) \<le> x \<Longrightarrow> x < 2 ^ 63 \<Longrightarrow> sint (Int64 x) = x"
  by (simp add: Int64_def signed_of_int signed_take_bit_int_eq_self)

section \<open>setCore and startRound at round 0\<close>




section \<open>Start and Stop step by step\<close>

lemma startBody_flags:
  "startBody env c = Returns (c1, err) \<Longrightarrow>
   isStarted c1 = isStarted c \<and> isStarting c1 = isStarting c \<and> isStopped c1 = isStopped c
   \<and> isStopping c1 = isStopping c"
  by (auto simp: startBody_def subscribeEvents_def onRoundState_def Let_def
      split: prod.splits option.splits)

lemma stopBody_flags:
  "stopBody env c = Returns (c1, err) \<Longrightarrow>
   isStarted c1 = isStarted c \<and> isStarting c1 = isStarting c \<and> isStopped c1 = isStopped c
   \<and> isStopping c1 = isStopping c"
  by (auto simp: stopBody_def unsubscribeEvents_def stopFutureProposalTimer_def recvStopped_def
      Let_def split: prod.splits option.splits if_splits)

lemma Start_guarded:
  "isStarted c = 1 \<or> isStarting c \<noteq> 0 \<Longrightarrow> Start env c = Returns (c, None)"
  by (auto simp: Start_def finish_def)

lemma Stop_guarded:
  "isStopped c = 1 \<or> isStopping c \<noteq> 0 \<Longrightarrow> Stop env c = Returns (c, None)"
  by (auto simp: Stop_def finish_def)


lemma Stop_runs:
  "isStopped c \<noteq> 1 \<Longrightarrow> isStopping c = 0 \<Longrightarrow>
   Stop env c =
     (case stopBody env (c\<lparr>isStopping := 1\<rparr>) of
        Returns (c1, err) \<Rightarrow> Returns (c1\<lparr>isStopping := 0, isStopped := 1, isStarted := 0\<rparr>, err)
      | Panics \<Rightarrow> Panics
      | Hangs \<Rightarrow> Hangs)"
  by (simp add: Stop_def finish_def split: outcome.splits prod.splits)


section \<open>The sample node evaluated\<close>

lemma sampleBackend_simps:
  "address sampleBackend = 1"
  "commitCh sampleBackend = None"
  "proposedBlockHash sampleBackend = 0"
  "broadcaster sampleBackend = Some (connectedTo [4, 2, 9, 3])"
  "recentMessages sampleBackend = Map.empty"
  "knownMessages sampleBackend = Map.empty"
  "currentBlock sampleBackend = sampleBlock"
  "sent sampleBackend = []"
  by (simp_all add: sampleBackend_def)

lemma targets_sample: "targets sampleBackend fourValidators = [2, 3, 4]"
  by (simp add: targets_def sampleBackend_simps fourValidators_def)

lemma Quorum_F_sample: "Quorum fourValidators = 3" "F fourValidators = 1"
  by (simp_all add: Quorum_def F_def fourValidators_def)

lemma found_sample: "found sampleBackend fourValidators = [4, 2, 3]"
  by (simp add: found_def targets_sample sampleBackend_simps connectedTo_def)

lemma sampleBenv_simps:
  "RLPHash sampleBenv = (\<lambda>p. of_nat (length p))"
  "WriteCommittedSeals sampleBenv =
     (\<lambda>h seals. if seals = [] then Inl (OtherError ''no committed seals'')
                 else Inr (h\<lparr>Extra := Extra h @ concat seals\<rparr>))"
  "Hash sampleBenv = (\<lambda>b. of_int (Number (blockHeader b)))"
  "Author sampleBenv = (\<lambda>h. Inr 2)"
  by (simp_all add: sampleBenv_def)

lemmas core_defs =
  handleMsg_def handleCheckedMsg_def testBacklog_def msgRoundOf_def countFutureRound_def
  startRound_def setCore_def proposeOrWait_def setStep_def isProposer_def onRoundState_def
  theRoundState_def Update_def SetStep_def LastCommittedProposal_def lookupCount_def
  handlerFor_def msgHeightOf_def FromPayload_spec_def failedDecode_def
  msgProposal_def msgPrevote_def msgPrecommit_def Int64_def Uint64_def F_def Validators_def
  deleteRounds.simps word_sle_eq word_sless_alt Let_def timeoutPropose_def

lemmas sample_defs =
  sampleEnv_def sampleBenv_def hastyEnv_def sampleDecode_def sampleRecover_def samplePayload_def
  sampleHandleVote_def sampleHandleProposal_def sampleDecodeVote_def sampleDecodeProposal_def
  classify_def sampleStoreBacklog_def roundRobin_def pendingBlock_def sampleSaved_def
  sampleCore_def New_def sampleBackend_def sampleBlock_def fourValidators_def
  sampleRoundState_def proposingCore_def afterFirstReceipt_def afterSkip_def atHeight9_def
  futureRoundVote_def futureRoundPayload_def futureHeightVote_def futureHeightPayload_def
  currentVote_def currentPayload_def unknownCodeMsg_def unknownCodePayload_def
  strangerPayload_def brokenPayload_def emptyVote_def

lemmas start_defs =
  Start_def Stop_def finish_def startBody_def stopBody_def subscribeEvents_def
  unsubscribeEvents_def stopFutureProposalTimer_def recvStopped_def
  halfStarted_def startedTwice_def startedCore_def halfStopped_def stoppedCore_def
  staleCore_def
  staleRoundState_def restarted_def atRoundZero_def

lemma sampleEnv_simps:
  "benv sampleEnv = sampleBenv"
  "FromPayload sampleEnv = FromPayload_spec sampleDecode sampleRecover"
  "Payload sampleEnv = samplePayload"
  "decodeProposal sampleEnv = sampleDecodeProposal"
  "decodeVote sampleEnv = sampleDecodeVote"
  "handleProposal sampleEnv = sampleHandleProposal"
  "handlePrevote sampleEnv = sampleHandleVote"
  "handlePrecommit sampleEnv = sampleHandleVote"
  "storeBacklog sampleEnv = sampleStoreBacklog"
  "retrieveSavedValidators sampleEnv = sampleSaved"
  by (simp_all add: sampleEnv_def)


lemma sampleCore_simps:
  "isStarted sampleCore = 0" "isStarting sampleCore = 0"
  "isStopped sampleCore = 0" "isStopping sampleCore = 0"
  "backend sampleCore = sampleBackend"
  "valSet sampleCore = fourValidators"
  "theRoundState sampleCore = sampleRoundState"
  "futureRoundsChange sampleCore = Map.empty"
  "goroutines sampleCore = []"
  "rest sampleCore = []"
  by (simp_all add: sampleCore_def New_def theRoundState_def)



lemma atHeight9_simps:
  "backend atHeight9 = sampleBackend"
  "valSet atHeight9 = fourValidators"
  "rest atHeight9 = [(futureHeightVote, 3)]"
  by (simp_all add: atHeight9_def sampleStoreBacklog_def sampleCore_def New_def)

lemma handlerFor_sample:
  "handlerFor sampleEnv futureRoundVote = Some (sampleHandleVote futureRoundVote)"
  "handlerFor sampleEnv futureHeightVote = Some (sampleHandleVote futureHeightVote)"
  "handlerFor sampleEnv currentVote = Some (sampleHandleVote currentVote)"
  "handlerFor hastyEnv emptyVote = Some (\<lambda>c. (c, Some errFutureRoundMessage))"
  by (simp_all add: handlerFor_def futureRoundVote_def futureHeightVote_def currentVote_def
      emptyVote_def sampleEnv_def hastyEnv_def msgProposal_def msgPrevote_def)





lemma msgRoundOf_sample:
  "msgRoundOf sampleEnv futureRoundVote = Inr 2"
  "msgRoundOf hastyEnv emptyVote = Inl errFailedDecodeVote"
  by (simp_all add: msgRoundOf_def futureRoundVote_def emptyVote_def sampleEnv_def hastyEnv_def
      msgProposal_def sampleDecodeVote_def Int64_def)

lemma sampleHandleVote_sample:
  "sampleHandleVote futureRoundVote sampleCore = (sampleCore, Some errFutureRoundMessage)"
  "sampleHandleVote futureRoundVote afterFirstReceipt
     = (afterFirstReceipt, Some errFutureRoundMessage)"
  "sampleHandleVote futureHeightVote sampleCore = (sampleCore, Some errFutureHeightMessage)"
  "sampleHandleVote currentVote sampleCore = (sampleCore, None)"
  "sampleHandleVote currentVote proposingCore = (proposingCore, Some errFutureStepMessage)"
  "sampleHandleVote futureHeightVote atHeight9 = (atHeight9, None)"
  by (simp_all add: sampleHandleVote_def sampleDecodeVote_def classify_def theRoundState_def
      futureRoundVote_def futureHeightVote_def currentVote_def afterFirstReceipt_def
      proposingCore_def atHeight9_def sampleStoreBacklog_def sampleCore_def New_def
      sampleRoundState_def)

lemma FromPayload_sample:
  "FromPayload sampleEnv futureRoundPayload fourValidators = Inr (futureRoundVote, 3)"
  "FromPayload sampleEnv futureHeightPayload fourValidators = Inr (futureHeightVote, 3)"
  "FromPayload sampleEnv currentPayload fourValidators = Inr (currentVote, 3)"
  "FromPayload sampleEnv unknownCodePayload fourValidators = Inr (unknownCodeMsg, 3)"
  "FromPayload sampleEnv strangerPayload fourValidators = Inl errInvalidMessage"
  "FromPayload sampleEnv brokenPayload fourValidators = Inl errFailedDecodePrevote"
  by (simp_all add: sampleEnv_simps FromPayload_spec_def failedDecode_def sampleDecode_def
      sampleRecover_def futureRoundPayload_def futureRoundVote_def futureHeightPayload_def
      futureHeightVote_def currentPayload_def currentVote_def unknownCodePayload_def
      unknownCodeMsg_def strangerPayload_def brokenPayload_def fourValidators_def)



lemma height_receipt:
  "handleCheckedMsg sampleEnv sampleCore futureHeightVote 3
     = Returns (sampleStoreBacklog futureHeightVote 3 sampleCore, Some errFutureHeightMessage)"
  by (simp add: core_defs sample_defs)

lemma current_receipt:
  "handleCheckedMsg sampleEnv sampleCore currentVote 3 = Returns (sampleCore, None)"
  by (simp add: core_defs sample_defs)


lemma arrived_receipt:
  "handleCheckedMsg sampleEnv atHeight9 futureHeightVote 3 = Returns (atHeight9, None)"
  by (simp add: core_defs sample_defs)

lemma Start_halfStarted: "Start sampleEnv halfStarted = Returns (startedTwice, None)"
  by (simp add: core_defs sample_defs start_defs)

lemma Stop_sample: "Stop sampleEnv startedCore = Returns (stoppedCore, None)"
  by (simp add: core_defs sample_defs start_defs)

lemma Stop_halfStopped: "Stop sampleEnv halfStopped = Hangs"
  by (simp add: core_defs sample_defs start_defs)



lemma countFutureRound_first:
  "countFutureRound sampleEnv 2 (sampleStoreBacklog futureRoundVote 3 sampleCore)
     = Returns afterFirstReceipt"
  by (simp add: countFutureRound_def afterFirstReceipt_def sampleStoreBacklog_def
      sampleCore_simps Quorum_F_sample lookupCount_def Int64_def word_sless_alt Let_def)

lemma Gossip_sample_sent:
  "sent (Gossip sampleBenv sampleBackend fourValidators p)
     = [(4, tendermintMsg, p), (2, tendermintMsg, p), (3, tendermintMsg, p)]"
  by (simp add: Gossip_eq found_sample peerHas_def sendTo_def peerCache_def sampleBackend_simps)

lemma samplePayload_height: "samplePayload futureHeightVote = Inr futureHeightPayload"
  by (simp add: samplePayload_def futureHeightVote_def futureHeightPayload_def)

section \<open>C1: the round-skip rule\<close>




section \<open>C2: future messages are parked\<close>




section \<open>C3: malformed messages are dropped\<close>



section \<open>C4: which validator set handleMsg checks the sender against\<close>

text \<open>
  C4, as amended. With \<open>FromPayload\<close> as the spec describes it, \<open>handleMsg\<close> passes
  a message on to \<open>handleCheckedMsg\<close> only if its payload decodes and the
  recovered sender is a member of the validator set the core holds at that
  moment, \<open>c.valSet\<close>, whatever the height of the message; otherwise it returns
  an error and leaves the core unchanged.
\<close>

theorem handleMsg_checks_current_valSet:
  assumes "FromPayload env = FromPayload_spec decode recover"
  shows "(\<forall>msg sender. FromPayload env payload (valSet c) = Inr (msg, sender) \<longrightarrow>
            decode payload = Inr msg \<and> recover msg = Inr sender \<and> sender \<in> set (valSet c)
            \<and> handleMsg env c payload = handleCheckedMsg env c msg sender)
       \<and> ((\<forall>m s. decode payload = Inr m \<longrightarrow> recover m = Inr s \<longrightarrow> s \<notin> set (valSet c)) \<longrightarrow>
            (\<exists>err. handleMsg env c payload = Returns (c, Some err)))"
  using assms
  by (auto simp: handleMsg_def FromPayload_spec_def split: sum.splits if_splits)

text \<open>
  The sample node passes on the prevote of validator 3 and rejects the payload
  of peer 9.
\<close>

theorem handleMsg_checks_current_valSet_witness:
  "FromPayload sampleEnv = FromPayload_spec sampleDecode sampleRecover
   \<and> FromPayload sampleEnv currentPayload (valSet sampleCore) = Inr (currentVote, 3)
   \<and> 3 \<in> set (valSet sampleCore)
   \<and> handleMsg sampleEnv sampleCore currentPayload
       = handleCheckedMsg sampleEnv sampleCore currentVote 3
   \<and> sampleDecode strangerPayload
       = Inr \<lparr>Code = 1, Msg = [0, 7], Address = 9, Signature = [9], CommittedSeal = []\<rparr>
   \<and> 9 \<notin> set (valSet sampleCore)
   \<and> (\<exists>err. handleMsg sampleEnv sampleCore strangerPayload = Returns (sampleCore, Some err))"
proof -
  have d: "sampleDecode strangerPayload
       = Inr \<lparr>Code = 1, Msg = [0, 7], Address = 9, Signature = [9], CommittedSeal = []\<rparr>"
    by (simp add: sampleDecode_def strangerPayload_def)
  have r: "\<forall>m s. sampleDecode strangerPayload = Inr m \<longrightarrow> sampleRecover m = Inr s \<longrightarrow>
             s \<notin> set (valSet sampleCore)"
    by (auto simp: d sampleRecover_def sampleCore_simps fourValidators_def)
  have a: "FromPayload sampleEnv currentPayload (valSet sampleCore) = Inr (currentVote, 3)"
    by (simp add: sampleCore_simps FromPayload_sample)
  have b: "3 \<in> set (valSet sampleCore)
      \<and> handleMsg sampleEnv sampleCore currentPayload
          = handleCheckedMsg sampleEnv sampleCore currentVote 3"
    using handleMsg_checks_current_valSet [OF sampleEnv_simps(2), of currentPayload sampleCore] a
    by blast
  have c: "\<exists>err. handleMsg sampleEnv sampleCore strangerPayload
                   = Returns (sampleCore, Some err)"
    using handleMsg_checks_current_valSet [OF sampleEnv_simps(2), of strangerPayload sampleCore] r
    by blast
  have "9 \<notin> set (valSet sampleCore)"
    by (simp add: sampleCore_simps fourValidators_def)
  with a b c d show ?thesis
    by (simp add: sampleEnv_simps(2))
qed

text \<open>
  The claim as stated fails: the sample node is at height 7, the prevote of
  validator 3 is for height 9, the validators for height 9 are not known yet
  (\<open>Validators\<close> gives the empty set), and still \<open>handleMsg\<close> passes the message
  on, so that it is parked in the backlog.
\<close>

theorem handleMsg_other_height_counterexample:
  "sampleDecode futureHeightPayload = Inr futureHeightVote
   \<and> msgHeightOf sampleEnv futureHeightVote = Some 9
   \<and> sampleRecover futureHeightVote = Inr 3
   \<and> 3 \<notin> set (Validators sampleSaved 9)
   \<and> handleMsg sampleEnv sampleCore futureHeightPayload
       = Returns (sampleStoreBacklog futureHeightVote 3 sampleCore, Some errFutureHeightMessage)
   \<and> rest (sampleStoreBacklog futureHeightVote 3 sampleCore) = [(futureHeightVote, 3)]"
proof -
  have "handleMsg sampleEnv sampleCore futureHeightPayload
       = Returns (sampleStoreBacklog futureHeightVote 3 sampleCore, Some errFutureHeightMessage)"
    using handleCheckedMsg_park [OF handlerFor_sample(2) sampleHandleVote_sample(3), of 3]
    by (simp add: handleMsg_def sampleCore_simps FromPayload_sample sampleEnv_simps(9))
  moreover have "msgHeightOf sampleEnv futureHeightVote = Some 9"
    by (simp add: msgHeightOf_def futureHeightVote_def msgProposal_def sampleEnv_simps
        sampleDecodeVote_def)
  moreover have "3 \<notin> set (Validators sampleSaved 9)"
    by (simp add: Validators_def sampleSaved_def)
  ultimately show ?thesis
    by (simp add: sampleDecode_def sampleRecover_def futureHeightPayload_def
        futureHeightVote_def sampleStoreBacklog_def sampleCore_simps)
qed

section \<open>C5: Start and Stop are idempotent\<close>

text \<open>
  C5. What the guards of the code do. \<open>Start\<close> on a core whose flag \<open>isStarted\<close>
  is 1, or whose flag \<open>isStarting\<close> is set, returns nil and leaves the core as it
  is, and so does \<open>Stop\<close> for \<open>isStopped\<close> and \<open>isStopping\<close>. But a call that runs
  its body clears \<open>isStarting\<close> with the first store of its deferred function,
  while \<open>isStarted\<close> is set only with the third: after the first four steps of
  such a call, which has not returned yet, a second \<open>Start\<close> passes the load and
  the compare-and-swap and stands at the body. The same holds for \<open>Stop\<close>, which
  clears \<open>isStopping\<close> before it sets \<open>isStopped\<close>.
\<close>

theorem second_call_passes_guards:
  "(isStarted c = 1 \<or> isStarting c \<noteq> 0 \<longrightarrow> Start env c = Returns (c, None))
   \<and> (isStopped c = 1 \<or> isStopping c \<noteq> 0 \<longrightarrow> Stop env c = Returns (c, None))
   \<and> (isStarted c \<noteq> 1 \<and> isStarting c = 0
        \<and> startBody env (c\<lparr>isStarting := 1\<rparr>) = Returns (c1, err) \<longrightarrow>
          steps 4 (startStep env) (AtLoad, c) = (AtDefer2 err, c1\<lparr>isStarting := 0\<rparr>)
          \<and> steps 2 (startStep env) (AtLoad, c1\<lparr>isStarting := 0\<rparr>)
              = (AtBody, c1\<lparr>isStarting := 1\<rparr>))
   \<and> (isStopped c \<noteq> 1 \<and> isStopping c = 0
        \<and> stopBody env (c\<lparr>isStopping := 1\<rparr>) = Returns (c2, err) \<longrightarrow>
          steps 4 (stopStep env) (AtLoad, c) = (AtDefer2 err, c2\<lparr>isStopping := 0\<rparr>)
          \<and> steps 2 (stopStep env) (AtLoad, c2\<lparr>isStopping := 0\<rparr>)
              = (AtBody, c2\<lparr>isStopping := 1\<rparr>))"
proof (intro conjI impI)
  assume "isStarted c = 1 \<or> isStarting c \<noteq> 0"
  then show "Start env c = Returns (c, None)"
    by (rule Start_guarded)
next
  assume "isStopped c = 1 \<or> isStopping c \<noteq> 0"
  then show "Stop env c = Returns (c, None)"
    by (rule Stop_guarded)
next
  assume a: "isStarted c \<noteq> 1 \<and> isStarting c = 0
        \<and> startBody env (c\<lparr>isStarting := 1\<rparr>) = Returns (c1, err)"
  then show "steps 4 (startStep env) (AtLoad, c) = (AtDefer2 err, c1\<lparr>isStarting := 0\<rparr>)"
    by (simp add: eval_nat_numeral)
  from a have "isStarted c1 = isStarted c"
    using startBody_flags [of env "c\<lparr>isStarting := 1\<rparr>" c1 err] by simp
  with a show "steps 2 (startStep env) (AtLoad, c1\<lparr>isStarting := 0\<rparr>)
              = (AtBody, c1\<lparr>isStarting := 1\<rparr>)"
    by (simp add: eval_nat_numeral)
next
  assume a: "isStopped c \<noteq> 1 \<and> isStopping c = 0
        \<and> stopBody env (c\<lparr>isStopping := 1\<rparr>) = Returns (c2, err)"
  then show "steps 4 (stopStep env) (AtLoad, c) = (AtDefer2 err, c2\<lparr>isStopping := 0\<rparr>)"
    by (simp add: eval_nat_numeral)
  from a have "isStopped c2 = isStopped c"
    using stopBody_flags [of env "c\<lparr>isStopping := 1\<rparr>" c2 err] by simp
  with a show "steps 2 (stopStep env) (AtLoad, c2\<lparr>isStopping := 0\<rparr>)
              = (AtBody, c2\<lparr>isStopping := 1\<rparr>)"
    by (simp add: eval_nat_numeral)
qed

text \<open>
  On the sample core: a started core is not started again, and a stopped core
  is not stopped again. But while a first
  \<open>Start\<close> stands after the first store of its deferred function, with its three
  goroutines spawned, a second \<open>Start\<close> runs the body again and spawns three more.
  And while a first \<open>Stop\<close> of the started core stands after the first store of
  its deferred function, a second \<open>Stop\<close> runs the body again and hangs on
  \<open>c.stopped\<close>, on which no goroutine is left to send.
\<close>

theorem second_call_passes_guards_witness:
  "isStarted startedCore = 1
   \<and> Start sampleEnv startedCore = Returns (startedCore, None)
   \<and> steps 4 (startStep sampleEnv) (AtLoad, sampleCore) = (AtDefer2 None, halfStarted)
   \<and> isStarted halfStarted = 0 \<and> isStarting halfStarted = 0
   \<and> goroutines halfStarted =
        [GoHandleNewUnminedBlockEvent, GoHandleConsensusEvents, GoHandleUnhandledMsgs]
   \<and> steps 2 (startStep sampleEnv) (AtLoad, halfStarted)
       = (AtBody, halfStarted\<lparr>isStarting := 1\<rparr>)
   \<and> Start sampleEnv halfStarted = Returns (startedTwice, None)
   \<and> goroutines startedTwice =
        [GoHandleNewUnminedBlockEvent, GoHandleConsensusEvents, GoHandleUnhandledMsgs,
         GoHandleNewUnminedBlockEvent, GoHandleConsensusEvents, GoHandleUnhandledMsgs]
   \<and> Stop sampleEnv startedCore = Returns (stoppedCore, None)
   \<and> isStopped stoppedCore = 1
   \<and> Stop sampleEnv stoppedCore = Returns (stoppedCore, None)
   \<and> steps 4 (stopStep sampleEnv) (AtLoad, startedCore) = (AtDefer2 None, halfStopped)
   \<and> isStopped halfStopped = 0 \<and> isStopping halfStopped = 0
   \<and> steps 2 (stopStep sampleEnv) (AtLoad, halfStopped)
       = (AtBody, halfStopped\<lparr>isStopping := 1\<rparr>)
   \<and> Stop sampleEnv halfStopped = Hangs"
proof -
  have t: "isStopped stoppedCore = 1"
    by (simp add: stoppedCore_def)
  have a': "Stop sampleEnv stoppedCore = Returns (stoppedCore, None)"
    using second_call_passes_guards [of stoppedCore sampleEnv] t by simp
  have s: "isStarted startedCore = 1"
    by (simp add: startedCore_def)
  have f: "isStarted sampleCore \<noteq> 1 \<and> isStarting sampleCore = 0
        \<and> startBody sampleEnv (sampleCore\<lparr>isStarting := 1\<rparr>)
            = Returns (halfStarted\<lparr>isStarting := 1\<rparr>, None)"
    by (simp add: core_defs sample_defs start_defs)
  have g: "isStopped startedCore \<noteq> 1 \<and> isStopping startedCore = 0
        \<and> stopBody sampleEnv (startedCore\<lparr>isStopping := 1\<rparr>)
            = Returns (halfStopped\<lparr>isStopping := 1\<rparr>, None)"
    by (simp add: core_defs sample_defs start_defs)
  have h1: "halfStarted\<lparr>isStarting := 0\<rparr> = halfStarted"
    by (simp add: halfStarted_def sampleCore_def New_def)
  have h2: "halfStopped\<lparr>isStopping := 0\<rparr> = halfStopped"
    by (simp add: halfStopped_def startedCore_def halfStarted_def sampleCore_def New_def)
  have a: "Start sampleEnv startedCore = Returns (startedCore, None)"
    using second_call_passes_guards [of startedCore sampleEnv] s by simp
  have b: "steps 4 (startStep sampleEnv) (AtLoad, sampleCore) = (AtDefer2 None, halfStarted)
     \<and> steps 2 (startStep sampleEnv) (AtLoad, halfStarted)
         = (AtBody, halfStarted\<lparr>isStarting := 1\<rparr>)"
    using second_call_passes_guards
        [of sampleCore sampleEnv "halfStarted\<lparr>isStarting := 1\<rparr>" None] f h1
    by simp
  have c: "steps 4 (stopStep sampleEnv) (AtLoad, startedCore) = (AtDefer2 None, halfStopped)
     \<and> steps 2 (stopStep sampleEnv) (AtLoad, halfStopped)
         = (AtBody, halfStopped\<lparr>isStopping := 1\<rparr>)"
    using second_call_passes_guards
        [of startedCore sampleEnv _ None "halfStopped\<lparr>isStopping := 1\<rparr>"] g h2
    by simp
  have d: "isStarted halfStarted = 0 \<and> isStarting halfStarted = 0
     \<and> goroutines halfStarted =
        [GoHandleNewUnminedBlockEvent, GoHandleConsensusEvents, GoHandleUnhandledMsgs]
     \<and> goroutines startedTwice =
        [GoHandleNewUnminedBlockEvent, GoHandleConsensusEvents, GoHandleUnhandledMsgs,
         GoHandleNewUnminedBlockEvent, GoHandleConsensusEvents, GoHandleUnhandledMsgs]
     \<and> isStopped halfStopped = 0 \<and> isStopping halfStopped = 0"
    by (simp add: halfStopped_def startedCore_def startedTwice_def halfStarted_def
        sampleCore_def New_def)
  from s a t a' b c d Start_halfStarted Stop_sample Stop_halfStopped show ?thesis
    by simp
qed

section \<open>C6: the view after Start\<close>



section \<open>C7: Commit\<close>

text \<open>
  C7, as amended. \<open>Commit\<close> first writes the seals into a copy of the header. If
  that fails it returns the error and delivers nothing. Otherwise the block with
  the sealed header is sent on the result channel of \<open>Seal\<close>, once, when its hash
  is the hash of the block the node proposed and that channel is not nil; else
  it is enqueued, once, at the fetcher of the broadcaster when a broadcaster is
  set; with no broadcaster set it is delivered nowhere. In all three cases
  \<open>Commit\<close> returns nil.
\<close>

theorem Commit_delivers:
  "(WriteCommittedSeals be (blockHeader proposal) seals = Inl err \<longrightarrow>
      Commit be sb proposal seals = (sb, Some err))
   \<and> (WriteCommittedSeals be (blockHeader proposal) seals = Inr h
        \<and> proposedBlockHash sb = Hash be (WithSeal proposal h) \<and> commitCh sb = Some ch \<longrightarrow>
      Commit be sb proposal seals = (sb\<lparr>commitCh := Some (ch @ [WithSeal proposal h])\<rparr>, None))
   \<and> (WriteCommittedSeals be (blockHeader proposal) seals = Inr h
        \<and> (proposedBlockHash sb \<noteq> Hash be (WithSeal proposal h) \<or> commitCh sb = None)
        \<and> broadcaster sb = Some br \<longrightarrow>
      Commit be sb proposal seals =
        (sb\<lparr>broadcaster := Some (br\<lparr>queue := queue br @ [(fetcherID, WithSeal proposal h)]\<rparr>)\<rparr>,
         None))
   \<and> (WriteCommittedSeals be (blockHeader proposal) seals = Inr h
        \<and> (proposedBlockHash sb \<noteq> Hash be (WithSeal proposal h) \<or> commitCh sb = None)
        \<and> broadcaster sb = None \<longrightarrow>
      Commit be sb proposal seals = (sb, None))"
  by (auto simp: Commit_def isResultChanNil_def sendResultChan_def Enqueue_def Let_def)

text \<open>
  The sample backend with no seals, while sealing its own block 6, with its
  broadcaster and no result channel, and with neither.
\<close>

theorem Commit_delivers_witness:
  "Commit sampleBenv sampleBackend sampleBlock []
     = (sampleBackend, Some (OtherError ''no committed seals''))
   \<and> WriteCommittedSeals sampleBenv (blockHeader sampleBlock) [[1]] = Inr sealedHeader
   \<and> proposedBlockHash sealingBackend = Hash sampleBenv (WithSeal sampleBlock sealedHeader)
   \<and> commitCh (fst (Commit sampleBenv sealingBackend sampleBlock [[1]]))
       = Some [WithSeal sampleBlock sealedHeader]
   \<and> commitCh sampleBackend = None
   \<and> map_option queue (broadcaster (fst (Commit sampleBenv sampleBackend sampleBlock [[1]])))
       = Some [(fetcherID, WithSeal sampleBlock sealedHeader)]
   \<and> Commit sampleBenv loneBackend sampleBlock [[1]] = (loneBackend, None)"
proof -
  have e: "WriteCommittedSeals sampleBenv (blockHeader sampleBlock) [] =
             Inl (OtherError ''no committed seals'')"
    by (simp add: sampleBenv_simps)
  have w: "WriteCommittedSeals sampleBenv (blockHeader sampleBlock) [[1]] = Inr sealedHeader"
    by (simp add: sampleBenv_simps sampleBlock_def sealedHeader_def)
  have p: "proposedBlockHash sealingBackend = Hash sampleBenv (WithSeal sampleBlock sealedHeader)"
    by (simp add: sealingBackend_def sampleBenv_simps WithSeal_def sealedHeader_def)
  have c: "commitCh sealingBackend = Some []"
    by (simp add: sealingBackend_def)
  have n: "commitCh sampleBackend = None" "commitCh loneBackend = None"
    by (simp_all add: sampleBackend_simps loneBackend_def)
  have b: "broadcaster sampleBackend = Some (connectedTo [4, 2, 9, 3])"
    "broadcaster loneBackend = None"
    by (simp_all add: sampleBackend_simps loneBackend_def)
  have 1: "Commit sampleBenv sampleBackend sampleBlock []
         = (sampleBackend, Some (OtherError ''no committed seals''))"
    using Commit_delivers [where be = sampleBenv and sb = sampleBackend
        and proposal = sampleBlock and seals = "[]"
        and err = "OtherError ''no committed seals''"] e
    by simp
  have 2: "Commit sampleBenv sealingBackend sampleBlock [[1]]
         = (sealingBackend\<lparr>commitCh := Some ([] @ [WithSeal sampleBlock sealedHeader])\<rparr>, None)"
    using Commit_delivers [where be = sampleBenv and sb = sealingBackend
        and proposal = sampleBlock and seals = "[[1]]" and h = sealedHeader and ch = "[]"] w p c
    by simp
  have 3: "Commit sampleBenv sampleBackend sampleBlock [[1]]
         = (sampleBackend\<lparr>broadcaster := Some ((connectedTo [4, 2, 9, 3])
              \<lparr>queue := queue (connectedTo [4, 2, 9, 3])
                         @ [(fetcherID, WithSeal sampleBlock sealedHeader)]\<rparr>)\<rparr>, None)"
    using Commit_delivers [where be = sampleBenv and sb = sampleBackend
        and proposal = sampleBlock and seals = "[[1]]" and h = sealedHeader
        and br = "connectedTo [4, 2, 9, 3]"] w n(1) b(1)
    by simp
  have 4: "Commit sampleBenv loneBackend sampleBlock [[1]] = (loneBackend, None)"
    using Commit_delivers [where be = sampleBenv and sb = loneBackend
        and proposal = sampleBlock and seals = "[[1]]" and h = sealedHeader] w n(2) b(2)
    by simp
  from w p n(1) show ?thesis
    by (simp add: 1 2 3 4 connectedTo_def)
qed

text \<open>
  The claim as stated fails: on the sample backend with no broadcaster set and
  no result channel, the seals are written, \<open>Commit\<close> returns nil, and the block
  has been delivered nowhere.
\<close>

theorem Commit_undelivered_counterexample:
  "WriteCommittedSeals sampleBenv (blockHeader sampleBlock) [[1]] = Inr sealedHeader
   \<and> Commit sampleBenv loneBackend sampleBlock [[1]] = (loneBackend, None)
   \<and> commitCh loneBackend = None
   \<and> broadcaster loneBackend = None"
  by (simp add: Commit_def sampleBenv_simps sampleBlock_def sealedHeader_def loneBackend_def
      isResultChanNil_def sampleBackend_simps WithSeal_def)

section \<open>C8: the driver gossips what it has handled\<close>

text \<open>
  C8. For a message event the event loop gossips the payload to the validator
  set if \<open>handleMsg\<close> returned nil, and does nothing more than \<open>handleMsg\<close> did
  if it returned an error. So a payload whose message is classified as a future
  message is parked (and counted, for a future round) and not gossiped. For a
  backlog event whose message \<open>handleCheckedMsg\<close> handles with nil, the loop
  gossips the payload that the message encodes to.
\<close>

theorem gossip_iff_handled:
  "(handleMsg env c payload = Returns (c1, None) \<longrightarrow>
      handleEvent env c (MessageEvent payload) = Returns (gossipPayload env payload c1))
   \<and> (handleMsg env c payload = Returns (c1, Some err) \<longrightarrow>
      handleEvent env c (MessageEvent payload) = Returns c1)
   \<and> (FromPayload env payload (valSet c) = Inr (msg, sender) \<and> handlerFor env msg = Some hdl
        \<and> hdl c = (c', Some e) \<and> (e = errFutureHeightMessage \<or> e = errFutureStepMessage) \<longrightarrow>
      handleEvent env c (MessageEvent payload) = Returns (storeBacklog env msg sender c'))
   \<and> (FromPayload env payload (valSet c) = Inr (msg, sender) \<and> handlerFor env msg = Some hdl
        \<and> hdl c = (c', Some errFutureRoundMessage) \<and> msgRoundOf env msg = Inr r \<longrightarrow>
      handleEvent env c (MessageEvent payload) =
        countFutureRound env r (storeBacklog env msg sender c'))
   \<and> (handleCheckedMsg env c msg sender = Returns (c1, None) \<and> Payload env msg = Inr p \<longrightarrow>
      handleEvent env c (backlogEvent msg sender) = Returns (gossipPayload env p c1))"
  by (auto simp: handleEvent_def handleMsg_def handleCheckedMsg_handler
      testBacklog_future_round testBacklog_park dropped_error)

text \<open>
  The sample node gossips the prevote for its own view to its three validator
  peers; it parks the prevote for height 9 and sends nothing; two heights later
  the backlog event of that prevote is handled and the prevote is gossiped.
\<close>

theorem gossip_iff_handled_witness:
  "handleMsg sampleEnv sampleCore currentPayload = Returns (sampleCore, None)
   \<and> map_outcome (\<lambda>c. sent (backend c))
         (handleEvent sampleEnv sampleCore (MessageEvent currentPayload))
       = Returns [(4, tendermintMsg, currentPayload), (2, tendermintMsg, currentPayload),
                  (3, tendermintMsg, currentPayload)]
   \<and> handleMsg sampleEnv sampleCore futureHeightPayload
       = Returns (sampleStoreBacklog futureHeightVote 3 sampleCore, Some errFutureHeightMessage)
   \<and> handleEvent sampleEnv sampleCore (MessageEvent futureHeightPayload)
       = Returns (sampleStoreBacklog futureHeightVote 3 sampleCore)
   \<and> sent (backend (sampleStoreBacklog futureHeightVote 3 sampleCore)) = []
   \<and> handleEvent sampleEnv sampleCore (MessageEvent futureRoundPayload)
       = Returns afterFirstReceipt
   \<and> handleCheckedMsg sampleEnv atHeight9 futureHeightVote 3 = Returns (atHeight9, None)
   \<and> Payload sampleEnv futureHeightVote = Inr futureHeightPayload
   \<and> map_outcome (\<lambda>c. sent (backend c))
         (handleEvent sampleEnv atHeight9 (backlogEvent futureHeightVote 3))
       = Returns [(4, tendermintMsg, futureHeightPayload),
                  (2, tendermintMsg, futureHeightPayload),
                  (3, tendermintMsg, futureHeightPayload)]"
proof -
  have m1: "handleMsg sampleEnv sampleCore currentPayload = Returns (sampleCore, None)"
    using current_receipt
    by (simp add: handleMsg_def sampleCore_simps FromPayload_sample)
  have m2: "handleMsg sampleEnv sampleCore futureHeightPayload
       = Returns (sampleStoreBacklog futureHeightVote 3 sampleCore, Some errFutureHeightMessage)"
    using height_receipt
    by (simp add: handleMsg_def sampleCore_simps FromPayload_sample)
  note m3 = arrived_receipt
  have p: "Payload sampleEnv futureHeightVote = Inr futureHeightPayload"
    by (simp add: sampleEnv_simps samplePayload_height)
  have fr: "FromPayload sampleEnv futureRoundPayload (valSet sampleCore)
              = Inr (futureRoundVote, 3)"
    by (simp add: sampleCore_simps FromPayload_sample)
  have e1: "handleEvent sampleEnv sampleCore (MessageEvent currentPayload)
              = Returns (gossipPayload sampleEnv currentPayload sampleCore)"
    using gossip_iff_handled [where env = sampleEnv and c = sampleCore
        and payload = currentPayload and ?c1.0 = sampleCore] m1
    by simp
  have e2: "handleEvent sampleEnv sampleCore (MessageEvent futureHeightPayload)
              = Returns (sampleStoreBacklog futureHeightVote 3 sampleCore)"
    using gossip_iff_handled [where env = sampleEnv and c = sampleCore
        and payload = futureHeightPayload
        and ?c1.0 = "sampleStoreBacklog futureHeightVote 3 sampleCore"
        and err = errFutureHeightMessage] m2
    by simp
  have e3: "handleEvent sampleEnv atHeight9 (backlogEvent futureHeightVote 3)
              = Returns (gossipPayload sampleEnv futureHeightPayload atHeight9)"
    using gossip_iff_handled [where env = sampleEnv and c = atHeight9
        and msg = futureHeightVote and sender = 3 and ?c1.0 = atHeight9
        and p = futureHeightPayload] m3 p
    by simp
  have e4: "handleEvent sampleEnv sampleCore (MessageEvent futureRoundPayload)
              = countFutureRound sampleEnv 2 (storeBacklog sampleEnv futureRoundVote 3 sampleCore)"
    using gossip_iff_handled [where env = sampleEnv and c = sampleCore
        and payload = futureRoundPayload and msg = futureRoundVote and sender = 3
        and hdl = "sampleHandleVote futureRoundVote" and c' = sampleCore and r = 2]
      fr handlerFor_sample(1) sampleHandleVote_sample(1) msgRoundOf_sample(1)
    by simp
  have s1: "sent (backend (gossipPayload sampleEnv currentPayload sampleCore))
       = [(4, tendermintMsg, currentPayload), (2, tendermintMsg, currentPayload),
          (3, tendermintMsg, currentPayload)]"
    by (simp add: gossipPayload_def sampleEnv_simps sampleCore_simps Gossip_sample_sent)
  have s2: "sent (backend (sampleStoreBacklog futureHeightVote 3 sampleCore)) = []"
    by (simp add: sampleStoreBacklog_def sampleCore_simps sampleBackend_simps)
  have s3: "sent (backend (gossipPayload sampleEnv futureHeightPayload atHeight9))
       = [(4, tendermintMsg, futureHeightPayload), (2, tendermintMsg, futureHeightPayload),
          (3, tendermintMsg, futureHeightPayload)]"
    by (simp add: gossipPayload_def sampleEnv_simps atHeight9_simps Gossip_sample_sent)
  have s4: "countFutureRound sampleEnv 2 (storeBacklog sampleEnv futureRoundVote 3 sampleCore)
              = Returns afterFirstReceipt"
    by (simp add: sampleEnv_simps(9) countFutureRound_first)
  from m1 m2 m3 p show ?thesis
    by (simp add: e1 e2 e3 e4 s1 s2 s3 s4)
qed

section \<open>C9: Gossip\<close>

text \<open>
  C9. \<open>Gossip\<close> records the hash of the payload in \<open>knownMessages\<close>. It sends the
  payload, once each, to exactly those peers found for the validator set whose
  cache in \<open>recentMessages\<close> did not hold the hash, and afterwards the cache of
  each of them holds it. If \<open>FindPeers\<close> returns only peers it was asked for, the
  node's own address is not among them. Gossiping the same payload again
  changes nothing, so nothing is sent a second time.
\<close>

theorem Gossip_once_per_peer:
  "let h = RLPHash be p;
       ps = (case broadcaster sb of
               None \<Rightarrow> []
             | Some br \<Rightarrow> if targets sb vs = [] then []
                          else FindPeers br (set (targets sb vs)));
       sb' = Gossip be sb vs p
   in knownMessages sb' h = Some True
      \<and> (\<exists>new. sent sb' = sent sb @ map (\<lambda>a. (a, tendermintMsg, p)) new
               \<and> distinct new
               \<and> set new = {a \<in> set ps. \<not> peerHas sb a h}
               \<and> (\<forall>a \<in> set new. peerHas sb' a h)
               \<and> (set ps \<subseteq> set (targets sb vs) \<longrightarrow> address sb \<notin> set new))
      \<and> Gossip be sb' vs p = sb'"
proof -
  let ?h = "RLPHash be p"
  let ?sb1 = "sb\<lparr>knownMessages := (knownMessages sb)(?h \<mapsto> True)\<rparr>"
  have self: "address sb \<notin> set (targets sb vs)"
    by (simp add: targets_def)
  from gossipLoop_sent [of ?h p "found sb vs" ?sb1] obtain new where
    n: "sent (Gossip be sb vs p) = sent sb @ map (\<lambda>a. (a, tendermintMsg, p)) new"
       "distinct new" "set new = {a \<in> set (found sb vs). \<not> peerHas sb a ?h}"
       "\<forall>a \<in> set new. peerHas (Gossip be sb vs p) a ?h"
    by (auto simp: Gossip_eq)
  have "set (found sb vs) \<subseteq> set (targets sb vs) \<longrightarrow> address sb \<notin> set new"
    using self n(3) by auto
  with n have "\<exists>new. sent (Gossip be sb vs p) = sent sb @ map (\<lambda>a. (a, tendermintMsg, p)) new
               \<and> distinct new
               \<and> set new = {a \<in> set (found sb vs). \<not> peerHas sb a ?h}
               \<and> (\<forall>a \<in> set new. peerHas (Gossip be sb vs p) a ?h)
               \<and> (set (found sb vs) \<subseteq> set (targets sb vs) \<longrightarrow> address sb \<notin> set new)"
    by blast
  moreover have "knownMessages (Gossip be sb vs p) ?h = Some True"
    by (simp add: Gossip_eq)
  ultimately show ?thesis
    using Gossip_twice [of be sb vs p] by (simp add: Let_def found_def)
qed

text \<open>
  The sample backend gossips a payload of three bytes to its validator peers 4,
  2 and 3, not to itself and not to peer 9; a second call sends nothing.
\<close>

theorem Gossip_once_per_peer_witness:
  "set (found sampleBackend fourValidators) \<subseteq> set (targets sampleBackend fourValidators)
   \<and> sent (Gossip sampleBenv sampleBackend fourValidators [1, 2, 3])
       = [(4, tendermintMsg, [1, 2, 3]), (2, tendermintMsg, [1, 2, 3]),
          (3, tendermintMsg, [1, 2, 3])]
   \<and> knownMessages (Gossip sampleBenv sampleBackend fourValidators [1, 2, 3]) 3 = Some True
   \<and> sent (Gossip sampleBenv (Gossip sampleBenv sampleBackend fourValidators [1, 2, 3])
             fourValidators [1, 2, 3])
       = [(4, tendermintMsg, [1, 2, 3]), (2, tendermintMsg, [1, 2, 3]),
          (3, tendermintMsg, [1, 2, 3])]"
proof -
  have k: "knownMessages (Gossip sampleBenv sampleBackend fourValidators [1, 2, 3])
             (RLPHash sampleBenv [1, 2, 3]) = Some True"
    and t: "Gossip sampleBenv (Gossip sampleBenv sampleBackend fourValidators [1, 2, 3])
              fourValidators [1, 2, 3]
            = Gossip sampleBenv sampleBackend fourValidators [1, 2, 3]"
    using Gossip_once_per_peer [of sampleBenv "[1, 2, 3]" sampleBackend fourValidators]
    by (simp_all add: Let_def)
  have "RLPHash sampleBenv [1, 2, 3] = 3"
    by (simp add: sampleBenv_simps)
  with k t show ?thesis
    by (simp add: Gossip_sample_sent found_sample targets_sample)
qed

section \<open>C10: AskSync\<close>

text \<open>
  C10. \<open>AskSync\<close> sends the sync request to the first \<open>Quorum()\<close> of the peers
  found for the validator set, in the order in which \<open>range\<close> visits them, and to
  no one else: at most \<open>Quorum()\<close> peers are asked. If \<open>FindPeers\<close> returns only
  peers it was asked for, the node itself is not among them. With no
  broadcaster, or with no peer found, nothing is sent.
\<close>

theorem AskSync_contacts:
  "let ps = (case broadcaster sb of
               None \<Rightarrow> []
             | Some br \<Rightarrow> if targets sb vs = [] then []
                          else FindPeers br (set (targets sb vs)));
       contacted = take (nat (Quorum vs)) ps
   in AskSync sb vs = sb\<lparr>sent := sent sb @ map (\<lambda>a. (a, tendermintSyncMsg, [])) contacted\<rparr>
      \<and> int (length contacted) \<le> Quorum vs
      \<and> (set ps \<subseteq> set (targets sb vs) \<longrightarrow> address sb \<notin> set contacted)
      \<and> (ps = [] \<longrightarrow> AskSync sb vs = sb)"
proof -
  have q: "0 \<le> Quorum vs" by (rule Quorum_nonneg)
  have self: "address sb \<notin> set (targets sb vs)"
    by (simp add: targets_def)
  show ?thesis
  proof (cases "broadcaster sb")
    case None
    then show ?thesis using q by (simp add: AskSync_def)
  next
    case (Some br)
    show ?thesis
    proof (cases "targets sb vs = []")
      case True
      then show ?thesis using Some q by (simp add: AskSync_def)
    next
      case False
      then show ?thesis
        using Some q self askSyncLoop_eq [of 0 "Quorum vs"]
        by (auto simp: AskSync_def Let_def dest: in_set_takeD)
    qed
  qed
qed

text \<open>
  The sample backend asks its validator peers 4, 2 and 3, which are as many as
  the quorum; of six validators with a quorum of 4 it would ask the first four
  of five peers; with no broadcaster it asks no one.
\<close>

theorem AskSync_contacts_witness:
  "set (found sampleBackend fourValidators) \<subseteq> set (targets sampleBackend fourValidators)
   \<and> sent (AskSync sampleBackend fourValidators)
       = [(4, tendermintSyncMsg, []), (2, tendermintSyncMsg, []), (3, tendermintSyncMsg, [])]
   \<and> sent (AskSync (sampleBackend\<lparr>broadcaster := Some (connectedTo [6, 5, 4, 3, 2])\<rparr>)
             [1, 2, 3, 4, 5, 6])
       = [(6, tendermintSyncMsg, []), (5, tendermintSyncMsg, []), (4, tendermintSyncMsg, []),
          (3, tendermintSyncMsg, [])]
   \<and> AskSync loneBackend fourValidators = loneBackend"
proof -
  let ?six = "sampleBackend\<lparr>broadcaster := Some (connectedTo [6, 5, 4, 3, 2])\<rparr>"
  have t6: "targets ?six [1, 2, 3, 4, 5, 6] = [2, 3, 4, 5, 6]"
    by (simp add: targets_def sampleBackend_simps)
  have f6: "FindPeers (connectedTo [6, 5, 4, 3, 2]) {2, 3, 4, 5, 6} = [6, 5, 4, 3, 2]"
    by (simp add: connectedTo_def)
  have q6: "Quorum [1, 2, 3, 4, 5, 6] = 4"
    by (simp add: Quorum_def)
  have a: "sent (AskSync sampleBackend fourValidators)
       = [(4, tendermintSyncMsg, []), (2, tendermintSyncMsg, []), (3, tendermintSyncMsg, [])]"
    using AskSync_contacts [of sampleBackend fourValidators] found_sample
    by (simp add: Let_def found_def Quorum_F_sample sampleBackend_simps)
  have b: "sent (AskSync ?six [1, 2, 3, 4, 5, 6])
       = [(6, tendermintSyncMsg, []), (5, tendermintSyncMsg, []), (4, tendermintSyncMsg, []),
          (3, tendermintSyncMsg, [])]"
    using AskSync_contacts [of ?six "[1, 2, 3, 4, 5, 6]"]
    by (simp add: Let_def t6 q6 f6 sampleBackend_simps)
  have c: "AskSync loneBackend fourValidators = loneBackend"
    using AskSync_contacts [of loneBackend fourValidators]
    by (simp add: Let_def loneBackend_def)
  from a b c show ?thesis
    by (simp add: found_sample targets_sample)
qed

end
